theory Spec2Isabelle
  imports Main "HOL-Library.Word" "HOL-Library.Char_ord"
begin

unbundle bit_operations_syntax

section \<open>WIFIOnOff: firmware of a mains-switching smart plug\<close>

text \<open>
  A shallow embedding of \<^verbatim>\<open>src/WIFIOnOff.ino\<close> (the WiFiManager variant) and of the
  button handler of the older WPS variant of the same sketch. Global variables of the
  sketch are the fields of one record; every function of the sketch that changes a global
  takes the record and returns it updated. Calls into the Arduino libraries that are
  visible outside the sketch (GPIO, MQTT, WiFi, HTTP answers, restart) are appended to the
  field \<open>effects\<close> in the order in which the sketch issues them.
\<close>

subsection \<open>Machine types and strings\<close>

type_synonym byte = "8 word"    \<comment> \<open>\<^verbatim>\<open>uint8_t\<close>\<close>
type_synonym ulong = "32 word"  \<comment> \<open>\<^verbatim>\<open>unsigned long\<close> on the ESP8266\<close>

definition byte_of_char :: "char \<Rightarrow> byte" where
  "byte_of_char c = of_nat (of_char c)"

definition char_of_byte :: "byte \<Rightarrow> char" where
  "char_of_byte b = char_of (unat b)"

text \<open>
  \<^verbatim>\<open>s.c_str()[i]\<close>: the characters of the string, then the terminating NUL, then whatever
  the heap holds behind the buffer (\<open>beyond\<close>); the sketch copies whole 256 byte slots out
  of shorter strings, so it does read there.
\<close>

definition c_str :: "string \<Rightarrow> (nat \<Rightarrow> byte) \<Rightarrow> nat \<Rightarrow> byte" where
  "c_str s beyond i =
     (if i < length s then byte_of_char (s ! i)
      else if i = length s then 0
      else beyond (i - Suc (length s)))"

text \<open>
  \<^verbatim>\<open>String(buf)\<close> for a \<^verbatim>\<open>char buf[n]\<close>: the bytes up to the first NUL, searched
  in the array and then in the memory that follows it (\<open>behind\<close>).
\<close>

definition String_of_buffer :: "byte list \<Rightarrow> byte list \<Rightarrow> string" where
  "String_of_buffer buf behind = map char_of_byte (takeWhile (\<lambda>b. b \<noteq> 0) (buf @ behind))"

subsection \<open>EEPROM layout\<close>

definition EEPROM_length :: nat where "EEPROM_length = 4096"
definition EEPROM_version_number :: byte where "EEPROM_version_number = 1"
definition EEPROM_version_number_address :: nat where "EEPROM_version_number_address = 0"
definition EEPROM_address_CRC :: nat where "EEPROM_address_CRC = 1"
definition EEPROM_size_CRC :: nat where "EEPROM_size_CRC = 4"
definition EEPROM_address_start :: nat where
  "EEPROM_address_start = EEPROM_address_CRC + EEPROM_size_CRC"
definition EEPROM_enabled :: byte where "EEPROM_enabled = 0xEB"
definition EEPROM_enabled_size :: nat where "EEPROM_enabled_size = 1"
definition EEPROM_init_value :: byte where "EEPROM_init_value = 0x00"
definition EEPROM_address_MQTT_server_configured :: nat where
  "EEPROM_address_MQTT_server_configured = EEPROM_address_start"
definition EEPROM_address_MQTT_server :: nat where
  "EEPROM_address_MQTT_server = EEPROM_address_MQTT_server_configured + EEPROM_enabled_size"
definition EEPROM_size_MQTT_server :: nat where "EEPROM_size_MQTT_server = 256"
definition EEPROM_address_OTA_password :: nat where
  "EEPROM_address_OTA_password = EEPROM_address_MQTT_server + EEPROM_size_MQTT_server"
definition EEPROM_size_OTA_password :: nat where "EEPROM_size_OTA_password = 256"

subsection \<open>The EEPROM library: a RAM copy of one flash sector\<close>

text \<open>
  \<^verbatim>\<open>EEPROM.read\<close> and \<^verbatim>\<open>EEPROM.write\<close> work on the RAM copy and ignore addresses
  outside it; \<^verbatim>\<open>EEPROM.length()\<close> is its size.
\<close>

definition EEPROM_read :: "byte list \<Rightarrow> nat \<Rightarrow> byte" where
  "EEPROM_read e a = (if a < length e then e ! a else 0)"

definition EEPROM_write :: "nat \<Rightarrow> byte \<Rightarrow> byte list \<Rightarrow> byte list" where
  "EEPROM_write a v e = (if a < length e then e[a := v] else e)"

text \<open>
  The loop \<^verbatim>\<open>for (i = k; i < n; i++) EEPROM.write(base + i, src[i]);\<close>
  which the sketch uses for every slot it fills.
\<close>

function write_loop :: "(nat \<Rightarrow> byte) \<Rightarrow> nat \<Rightarrow> nat \<Rightarrow> nat \<Rightarrow> byte list \<Rightarrow> byte list" where
  "write_loop src base n i e =
     (if i < n then write_loop src base n (i + 1) (EEPROM_write (base + i) (src i) e) else e)"
  by pat_completeness auto
termination
  by (relation "measure (\<lambda>(src, base, n, i, e). n - i)") auto

declare write_loop.simps [simp del]

text \<open>The loop \<^verbatim>\<open>for (i = k; i < n; i++) buf[i] = EEPROM.read(base + i);\<close>\<close>

function read_loop :: "byte list \<Rightarrow> nat \<Rightarrow> nat \<Rightarrow> nat \<Rightarrow> byte list" where
  "read_loop e base n i =
     (if i < n then EEPROM_read e (base + i) # read_loop e base n (i + 1) else [])"
  by pat_completeness auto
termination
  by (relation "measure (\<lambda>(e, base, n, i). n - i)") auto

declare read_loop.simps [simp del]

subsection \<open>Checksum\<close>

definition crc_table :: "ulong list" where
  "crc_table =
     [0x00000000, 0x1db71064, 0x3b6e20c8, 0x26d930ac,
      0x76dc4190, 0x6b6b51f4, 0x4db26158, 0x5005713c,
      0xedb88320, 0xf00f9344, 0xd6d6a3e8, 0xcb61b38c,
      0x9b64c2b0, 0x86d3d2d4, 0xa00ae278, 0xbdbdf21c]"

text \<open>One pass through the body of the loop of \<^verbatim>\<open>calculate_crc\<close>, for the byte read.\<close>

definition crc_byte :: "byte \<Rightarrow> ulong \<Rightarrow> ulong" where
  "crc_byte b crc =
     (let crc1 = crc_table ! unat ((crc XOR ucast b) AND 0x0f) XOR drop_bit 4 crc;
          crc2 = crc_table ! unat ((crc1 XOR ucast (drop_bit 4 b)) AND 0x0f) XOR drop_bit 4 crc1
      in NOT crc2)"

function calculate_crc_loop :: "byte list \<Rightarrow> nat \<Rightarrow> ulong \<Rightarrow> ulong" where
  "calculate_crc_loop e i crc =
     (if i < length e then calculate_crc_loop e (i + 1) (crc_byte (EEPROM_read e i) crc)
      else crc)"
  by pat_completeness auto
termination
  by (relation "measure (\<lambda>(e, i, crc). length e - i)") auto

declare calculate_crc_loop.simps [simp del]

definition calculate_crc :: "byte list \<Rightarrow> ulong" where
  "calculate_crc e = calculate_crc_loop e EEPROM_address_start (NOT 0)"

text \<open>
  \<^verbatim>\<open>storeCRC\<close> and \<^verbatim>\<open>retrieveCRC\<close> go through the bytes of the checksum by a
  \<^verbatim>\<open>uint8_t *\<close>; the ESP8266 is little-endian, so byte \<open>j\<close> holds bits \<open>8 j\<close> to
  \<open>8 j + 7\<close>.
\<close>

definition p2crc :: "ulong \<Rightarrow> nat \<Rightarrow> byte" where
  "p2crc crc j = ucast (drop_bit (8 * j) crc)"

fun ulong_of_bytes :: "byte list \<Rightarrow> ulong" where
  "ulong_of_bytes [] = 0"
| "ulong_of_bytes (b # bs) = ucast b OR push_bit 8 (ulong_of_bytes bs)"

definition storeCRC :: "byte list \<Rightarrow> byte list" where
  "storeCRC e = write_loop (p2crc (calculate_crc e)) EEPROM_address_CRC EEPROM_size_CRC 0 e"

definition retrieveCRC :: "byte list \<Rightarrow> ulong" where
  "retrieveCRC e = ulong_of_bytes (read_loop e EEPROM_address_CRC EEPROM_size_CRC 0)"

definition checkCRC :: "byte list \<Rightarrow> bool" where
  "checkCRC e \<longleftrightarrow> calculate_crc e = retrieveCRC e"

definition storeEEPROMVersionNumber :: "byte list \<Rightarrow> byte list" where
  "storeEEPROMVersionNumber e = EEPROM_write EEPROM_version_number_address EEPROM_version_number e"

definition checkEEPROMVersionNumber :: "byte list \<Rightarrow> bool" where
  "checkEEPROMVersionNumber e \<longleftrightarrow>
     EEPROM_read e EEPROM_version_number_address = EEPROM_version_number"

subsection \<open>The globals of the sketch and the calls it makes\<close>

datatype page =
    Page_relay bool
  | Page_info
  | Page_mqtt string string bool bool
  | Page_ota string
  | Page_reset string
  | Page_wifi string

datatype effect =
    DigitalWrite nat bool
  | Delay nat
  | MQTT_disconnect
  | MQTT_begin string
  | MQTT_onMessage
  | MQTT_connect string
  | MQTT_subscribe string
  | MQTT_setWill string string
  | MQTT_publish string string
  | MQTT_loop
  | WiFi_disconnect
  | WiFi_begin string string
  | WiFiManager_resetSettings
  | ArduinoOTA_handle
  | Webserver_send nat page
  | ESP_restart

record device =
  eeprom :: "byte list"
  flash :: "byte list"
  arduinoOtaPassword :: string
  stateLEDOn :: bool
  userActionFeedbackRequest :: bool
  credentialSsid :: string
  credentialPassword :: string
  wifiCredentialChangeRequested :: bool
  stateRelayConnected :: bool
  mqttServer :: string
  stateMQTTConfigured :: bool
  mqttOutgoingTopic :: string
  mqttIncomingTopic :: string
  factoryResetRequested :: bool
  buttonLastPressed :: bool
  timeSincebuttonPressed :: ulong
  selectionState :: ulong
  mqttClient_connected :: bool
  restarted :: bool
  effects :: "effect list"

definition emit :: "effect \<Rightarrow> 'a device_scheme \<Rightarrow> 'a device_scheme" where
  "emit x d = d\<lparr>effects := effects d @ [x]\<rparr>"

definition TRIGGER_TIME_FACTORY_RESET :: ulong where "TRIGGER_TIME_FACTORY_RESET = 15000"
definition TIME_QUARTER_SECOND :: nat where "TIME_QUARTER_SECOND = 250"
definition pinLED :: nat where "pinLED = 13"
definition pinRelay :: nat where "pinRelay = 12"

text \<open>\<^verbatim>\<open>EEPROM.begin\<close> loads the flash sector into RAM, \<^verbatim>\<open>EEPROM.commit\<close> writes it back.\<close>

definition EEPROM_begin :: "device \<Rightarrow> device" where
  "EEPROM_begin d = d\<lparr>eeprom := flash d\<rparr>"

definition EEPROM_commit :: "device \<Rightarrow> device" where
  "EEPROM_commit d = d\<lparr>flash := eeprom d\<rparr>"

subsection \<open>Persisted OTA password, initialisation of the EEPROM\<close>

definition saveOtaPasswordToEEPROM :: "(nat \<Rightarrow> byte) \<Rightarrow> device \<Rightarrow> device" where
  "saveOtaPasswordToEEPROM beyond d =
     EEPROM_commit (d\<lparr>eeprom :=
       storeCRC (write_loop (c_str (arduinoOtaPassword d) beyond)
                   EEPROM_address_OTA_password EEPROM_size_OTA_password 0 (eeprom d))\<rparr>)"

definition restoreOtaPasswordFromEEPROM :: "byte list \<Rightarrow> device \<Rightarrow> device" where
  "restoreOtaPasswordFromEEPROM behind d =
     d\<lparr>arduinoOtaPassword :=
         String_of_buffer (read_loop (eeprom d) EEPROM_address_OTA_password
                             EEPROM_size_OTA_password 0) behind\<rparr>"

text \<open>\<open>chip\<close> is \<^verbatim>\<open>String(ESP.getChipId())\<close>, the decimal digits of the chip's number.\<close>

definition getDefaultOtaPassword :: "string \<Rightarrow> string" where
  "getDefaultOtaPassword chip = ''ArduinoOTA'' @ chip"

definition initEEPROM :: "string \<Rightarrow> (nat \<Rightarrow> byte) \<Rightarrow> device \<Rightarrow> device" where
  "initEEPROM chip beyond d =
     saveOtaPasswordToEEPROM beyond
       (d\<lparr>eeprom := storeEEPROMVersionNumber
                      (write_loop (\<lambda>i. EEPROM_init_value) 0 EEPROM_length 0 (eeprom d)),
          arduinoOtaPassword := getDefaultOtaPassword chip\<rparr>)"

definition setupEEPROM :: "string \<Rightarrow> (nat \<Rightarrow> byte) \<Rightarrow> device \<Rightarrow> device" where
  "setupEEPROM chip beyond d =
     (let d1 = EEPROM_begin d
      in if \<not> checkCRC (eeprom d1) \<or> \<not> checkEEPROMVersionNumber (eeprom d1)
         then initEEPROM chip beyond d1
         else d1)"

subsection \<open>LED and relay\<close>

definition switchOffLED :: "device \<Rightarrow> device" where
  "switchOffLED d = emit (DigitalWrite pinLED True) (d\<lparr>stateLEDOn := False\<rparr>)"

definition switchOnLED :: "device \<Rightarrow> device" where
  "switchOnLED d = emit (DigitalWrite pinLED False) (d\<lparr>stateLEDOn := True\<rparr>)"

definition toggleLED :: "device \<Rightarrow> device" where
  "toggleLED d = (if stateLEDOn d then switchOffLED d else switchOnLED d)"

definition feedbackQuickBlink :: "device \<Rightarrow> device" where
  "feedbackQuickBlink d =
     (let d1 = emit (Delay TIME_QUARTER_SECOND) (toggleLED d);
          d2 = emit (Delay TIME_QUARTER_SECOND) (toggleLED d1);
          d3 = emit (Delay TIME_QUARTER_SECOND) (toggleLED d2);
          d4 = toggleLED d3
      in d4\<lparr>userActionFeedbackRequest := False\<rparr>)"

text \<open>With \<^verbatim>\<open>NUMERIC_RESPONSE\<close> defined, as in the sketch.\<close>

definition mqttPublish :: "'a device_scheme \<Rightarrow> 'a device_scheme" where
  "mqttPublish d =
     (if mqttClient_connected d then
        (if stateRelayConnected d then emit (MQTT_publish (mqttOutgoingTopic d) ''1'') d
         else emit (MQTT_publish (mqttOutgoingTopic d) ''0'') d)
      else d)"

definition disconnectRelay :: "'a device_scheme \<Rightarrow> 'a device_scheme" where
  "disconnectRelay d =
     mqttPublish (emit (DigitalWrite pinRelay False) (d\<lparr>stateRelayConnected := False\<rparr>))"

definition connectRelay :: "'a device_scheme \<Rightarrow> 'a device_scheme" where
  "connectRelay d =
     mqttPublish (emit (DigitalWrite pinRelay True) (d\<lparr>stateRelayConnected := True\<rparr>))"

definition toggleRelay :: "'a device_scheme \<Rightarrow> 'a device_scheme" where
  "toggleRelay d = (if stateRelayConnected d then disconnectRelay d else connectRelay d)"

subsection \<open>MQTT\<close>

definition mqttControlRelay :: "string \<Rightarrow> string \<Rightarrow> device \<Rightarrow> device" where
  "mqttControlRelay topic payload d =
     (if payload = ''1'' \<or> payload = ''on'' then connectRelay d
      else if payload = ''0'' \<or> payload = ''off'' then disconnectRelay d
      else d)"

definition restoreMQTTConfigurationFromEEPROM :: "byte list \<Rightarrow> device \<Rightarrow> device" where
  "restoreMQTTConfigurationFromEEPROM behind d =
     d\<lparr>mqttServer :=
         String_of_buffer (read_loop (eeprom d) EEPROM_address_MQTT_server
                             EEPROM_size_MQTT_server 0) behind,
       stateMQTTConfigured :=
         (EEPROM_read (eeprom d) EEPROM_address_MQTT_server_configured = EEPROM_enabled)\<rparr>"

definition saveMQTTConfigurationToEEPROM :: "(nat \<Rightarrow> byte) \<Rightarrow> device \<Rightarrow> device" where
  "saveMQTTConfigurationToEEPROM beyond d =
     EEPROM_commit (d\<lparr>eeprom :=
       storeCRC (write_loop (c_str (mqttServer d) beyond)
                   EEPROM_address_MQTT_server EEPROM_size_MQTT_server 0
                   (EEPROM_write EEPROM_address_MQTT_server_configured
                      (if stateMQTTConfigured d then EEPROM_enabled else EEPROM_init_value)
                      (eeprom d)))\<rparr>)"

definition configureMQTT :: "device \<Rightarrow> device" where
  "configureMQTT d =
     emit MQTT_onMessage
       (emit (MQTT_begin (mqttServer d))
          (emit MQTT_disconnect (d\<lparr>mqttClient_connected := False\<rparr>)))"

text \<open>\<open>mac\<close> is \<^verbatim>\<open>WiFi.macAddress()\<close>.\<close>

definition getClientID :: "string \<Rightarrow> string" where
  "getClientID mac = ''WIFIOnOff_'' @ mac"

text \<open>\<open>ok\<close> is what \<^verbatim>\<open>mqttClient.connect\<close> returns.\<close>

definition mqttConnect :: "string \<Rightarrow> bool \<Rightarrow> device \<Rightarrow> device" where
  "mqttConnect mac ok d =
     (let clientID = getClientID mac;
          d1 = emit (MQTT_connect clientID) (d\<lparr>mqttClient_connected := ok\<rparr>)
      in if ok then
           (let d2 = d1\<lparr>mqttIncomingTopic := ''wifionoff/'' @ clientID @ ''/set''\<rparr>;
                d3 = emit (MQTT_subscribe (mqttIncomingTopic d2)) d2;
                d4 = d3\<lparr>mqttOutgoingTopic := ''wifionoff/'' @ clientID @ ''/get''\<rparr>;
                d5 = emit (MQTT_setWill (mqttOutgoingTopic d4) ''disconnected'') d4
            in mqttPublish d5)
         else d1)"

subsection \<open>Web server\<close>

definition isNotWhitelisted :: "char \<Rightarrow> bool" where
  "isNotWhitelisted c =
     (if CHR ''a'' \<le> c \<and> c \<le> CHR ''z'' then False
      else if CHR ''A'' \<le> c \<and> c \<le> CHR ''Z'' then False
      else if CHR ''0'' \<le> c \<and> c \<le> CHR ''9'' then False
      else if c = CHR ''-'' \<or> c = CHR ''.'' \<or> c = CHR '':'' \<or> c = CHR ''['' \<or> c = CHR '']''
      then False
      else True)"

function mqttServerValid_loop :: "string \<Rightarrow> nat \<Rightarrow> bool" where
  "mqttServerValid_loop s i =
     (if i < length s then
        (if isNotWhitelisted (s ! i) then False else mqttServerValid_loop s (i + 1))
      else True)"
  by pat_completeness auto
termination
  by (relation "measure (\<lambda>(s, i). length s - i)") auto

declare mqttServerValid_loop.simps [simp del]

definition mqttServerValid :: "string \<Rightarrow> bool" where
  "mqttServerValid s =
     (if length s \<ge> EEPROM_size_MQTT_server then False else mqttServerValid_loop s 0)"

text \<open>\<^verbatim>\<open>delay(1000); ESP.restart();\<close> The sketch does not run on after the restart.\<close>

definition reboot :: "device \<Rightarrow> device" where
  "reboot d = (emit ESP_restart (emit (Delay 1000) d))\<lparr>restarted := True\<rparr>"

text \<open>The handler of \<^verbatim>\<open>/\<close>; \<open>userrequest\<close> is \<^verbatim>\<open>webserver.arg("relay")\<close>.\<close>

definition handle_root :: "string \<Rightarrow> device \<Rightarrow> device" where
  "handle_root userrequest d =
     (let d1 = (if userrequest = ''on'' then connectRelay d
                else if userrequest = ''off'' then disconnectRelay d
                else d)
      in emit (Webserver_send 200 (Page_relay (stateRelayConnected d1))) d1)"

definition handle_info :: "device \<Rightarrow> device" where
  "handle_info d = emit (Webserver_send 200 Page_info) d"

text \<open>
  The handler of \<^verbatim>\<open>/mqtt.html\<close>; \<open>mqttState\<close> and \<open>mqttserver\<close> are the two arguments of
  the request (empty when absent).
\<close>

definition handle_mqtt :: "(nat \<Rightarrow> byte) \<Rightarrow> string \<Rightarrow> string \<Rightarrow> device \<Rightarrow> device" where
  "handle_mqtt beyond mqttState mqttserver d =
     (let localStateMQTTConfigured =
            (if mqttState = ''on'' then True
             else if mqttState = ''off'' then False
             else stateMQTTConfigured d);
          failureMsg =
            (if mqttserver \<noteq> [] then
               (if mqttServerValid mqttserver then ''Input accepted.''
                else ''Input rejected, due to XSS mitigation.'')
             else []);
          localMqttServer = (if mqttserver \<noteq> [] then mqttserver else mqttServer d);
          d1 = (if localMqttServer \<noteq> mqttServer d
                   \<or> localStateMQTTConfigured \<noteq> stateMQTTConfigured d
                then configureMQTT
                       (saveMQTTConfigurationToEEPROM beyond
                          (d\<lparr>mqttServer := localMqttServer,
                             stateMQTTConfigured := localStateMQTTConfigured\<rparr>))
                else d)
      in emit (Webserver_send 200
                 (Page_mqtt localMqttServer failureMsg localStateMQTTConfigured
                    (mqttClient_connected d1))) d1)"

definition handle_ota :: "(nat \<Rightarrow> byte) \<Rightarrow> string \<Rightarrow> string \<Rightarrow> string \<Rightarrow> device \<Rightarrow> device" where
  "handle_ota beyond oldOta newOta newOtaRep d =
     (if oldOta = [] \<and> newOta = [] \<and> newOtaRep = [] then
        emit (Webserver_send 200 (Page_ota [])) d
      else if oldOta = arduinoOtaPassword d then
        (if newOta = [] then
           emit (Webserver_send 200 (Page_ota ''New password may not be empty.'')) d
         else if newOta = newOtaRep then
           (if length newOta \<ge> EEPROM_size_OTA_password then
              emit (Webserver_send 200 (Page_ota ''New password too long!'')) d
            else
              reboot
                (emit (Webserver_send 200
                         (Page_ota ''Password successfully changed. WIFIOnOff will reset.''))
                   (saveOtaPasswordToEEPROM beyond (d\<lparr>arduinoOtaPassword := newOta\<rparr>))))
         else
           emit (Webserver_send 200 (Page_ota ''New password does not match repetition.'')) d)
      else
        emit (Webserver_send 200 (Page_ota ''Old OTA password does not match!'')) d)"

definition handle_reset :: "string \<Rightarrow> device \<Rightarrow> device" where
  "handle_reset otaPassword d =
     (if otaPassword = arduinoOtaPassword d then
        emit (Webserver_send 200
                (Page_reset ''Factory reset will be performed. Device will reset.''))
          (d\<lparr>factoryResetRequested := True\<rparr>)
      else if otaPassword = [] then
        emit (Webserver_send 200 (Page_reset [])) d
      else
        emit (Webserver_send 200
                (Page_reset ''OTA password does not match. Factory reset will not be performed.''))
          d)"

definition handle_wifi :: "string \<Rightarrow> string \<Rightarrow> string \<Rightarrow> string \<Rightarrow> device \<Rightarrow> device" where
  "handle_wifi otaPassword ssid wifiPassword wifiPasswordRepetition d =
     (if otaPassword = arduinoOtaPassword d then
        (if ssid = [] then
           emit (Webserver_send 200 (Page_wifi ''SSID is empty!'')) d
         else if wifiPassword \<noteq> wifiPasswordRepetition then
           emit (Webserver_send 200 (Page_wifi ''WiFi passwords do not match!'')) d
         else if wifiPassword = [] then
           emit (Webserver_send 200 (Page_wifi ''WiFi password is empty!'')) d
         else
           emit (Webserver_send 200
                   (Page_wifi ''WiFi credentials will change. Device will reset.''))
             (d\<lparr>credentialPassword := wifiPassword, credentialSsid := ssid,
                wifiCredentialChangeRequested := True\<rparr>))
      else if otaPassword = [] then
        emit (Webserver_send 200 (Page_wifi [])) d
      else
        emit (Webserver_send 200
                (Page_wifi ''OTA password does not match. WiFi credentials will not change.''))
          d)"

text \<open>A request as \<^verbatim>\<open>webserver.handleClient()\<close> dispatches it, with its arguments.\<close>

datatype request =
    Req_root string
  | Req_info
  | Req_mqtt string string
  | Req_ota string string string
  | Req_reset string
  | Req_wifi string string string string

fun handleClient :: "(nat \<Rightarrow> byte) \<Rightarrow> request option \<Rightarrow> device \<Rightarrow> device" where
  "handleClient beyond None d = d"
| "handleClient beyond (Some (Req_root relay)) d = handle_root relay d"
| "handleClient beyond (Some Req_info) d = handle_info d"
| "handleClient beyond (Some (Req_mqtt mqttState mqttserver)) d =
     handle_mqtt beyond mqttState mqttserver d"
| "handleClient beyond (Some (Req_ota oldOta newOta newOtaRep)) d =
     handle_ota beyond oldOta newOta newOtaRep d"
| "handleClient beyond (Some (Req_reset ota)) d = handle_reset ota d"
| "handleClient beyond (Some (Req_wifi ota ssid pw pwRep)) d = handle_wifi ota ssid pw pwRep d"

subsection \<open>Factory reset, change of WiFi credentials\<close>

definition changeWiFiCredentials :: "device \<Rightarrow> device" where
  "changeWiFiCredentials d =
     reboot (emit (WiFi_begin (credentialSsid d) (credentialPassword d))
               (emit WiFi_disconnect d))"

definition performFactoryReset :: "string \<Rightarrow> (nat \<Rightarrow> byte) \<Rightarrow> device \<Rightarrow> device" where
  "performFactoryReset chip beyond d =
     reboot (initEEPROM chip beyond
               ((emit WiFiManager_resetSettings d)
                  \<lparr>mqttServer := [], stateMQTTConfigured := False\<rparr>))"

subsection \<open>Button\<close>

text \<open>
  One call of \<^verbatim>\<open>pressHandler\<close> by the ticker. \<open>buttonPressed\<close> is
  \<^verbatim>\<open>digitalRead(buttonPin) == LOW\<close> and \<open>now\<close> is what \<^verbatim>\<open>millis()\<close> returns in this call.
\<close>

definition pressHandler :: "bool \<Rightarrow> ulong \<Rightarrow> device \<Rightarrow> device" where
  "pressHandler buttonPressed now d =
     (let d1 = (if \<not> buttonLastPressed d \<and> buttonPressed
                then d\<lparr>timeSincebuttonPressed := now\<rparr> else d);
          d2 = (if buttonLastPressed d \<and> buttonPressed then
                  (let pastTime = now - timeSincebuttonPressed d1
                   in if pastTime > TRIGGER_TIME_FACTORY_RESET
                         \<and> selectionState d1 < TRIGGER_TIME_FACTORY_RESET
                      then d1\<lparr>selectionState := TRIGGER_TIME_FACTORY_RESET,
                              userActionFeedbackRequest := True\<rparr>
                      else d1)
                else d1);
          d3 = (if buttonLastPressed d \<and> \<not> buttonPressed then
                  (let pastTime = now - timeSincebuttonPressed d2
                   in (if pastTime > TRIGGER_TIME_FACTORY_RESET
                       then d2\<lparr>factoryResetRequested := True\<rparr>
                       else toggleRelay d2)\<lparr>selectionState := 0\<rparr>)
                else d2)
      in d3\<lparr>buttonLastPressed := buttonPressed\<rparr>)"

subsection \<open>The main loop\<close>

record loop_input =
  in_wifiConnected :: bool
  in_request :: "request option"
  in_mqttConnectOk :: bool
  in_mqttMessage :: "(string \<times> string) option"
  in_chip :: string
  in_mac :: string
  in_beyond :: "nat \<Rightarrow> byte"

text \<open>\<^verbatim>\<open>mqttClient.loop()\<close> hands a message that has come in to \<^verbatim>\<open>mqttControlRelay\<close>.\<close>

definition mqttClient_loop :: "(string \<times> string) option \<Rightarrow> device \<Rightarrow> device" where
  "mqttClient_loop msg d =
     (case msg of
        None \<Rightarrow> emit MQTT_loop d
      | Some (topic, payload) \<Rightarrow> mqttControlRelay topic payload (emit MQTT_loop d))"

definition loop :: "loop_input \<Rightarrow> device \<Rightarrow> device" where
  "loop inp d =
     (let d1 = (if userActionFeedbackRequest d then feedbackQuickBlink d else d)
      in if wifiCredentialChangeRequested d1 then changeWiFiCredentials d1
         else if factoryResetRequested d1 then
           performFactoryReset (in_chip inp) (in_beyond inp) d1
         else if in_wifiConnected inp then
           (let d2 = handleClient (in_beyond inp) (in_request inp) (emit ArduinoOTA_handle d1)
            in if restarted d2 then d2
               else if stateMQTTConfigured d2 then
                 (if mqttClient_connected d2 then mqttClient_loop (in_mqttMessage inp) d2
                  else mqttConnect (in_mac inp) (in_mqttConnectOk inp) d2)
               else d2)
         else d1)"

subsection \<open>The globals at power-on\<close>

text \<open>
  The initial values the sketch gives its globals; \<open>sector\<close> is what the flash sector of
  the EEPROM library holds. The RAM copy exists only from \<^verbatim>\<open>EEPROM.begin\<close> on.
\<close>

definition power_on :: "byte list \<Rightarrow> device" where
  "power_on sector =
     \<lparr>eeprom = [], flash = sector, arduinoOtaPassword = [], stateLEDOn = False,
      userActionFeedbackRequest = False, credentialSsid = [], credentialPassword = [],
      wifiCredentialChangeRequested = False, stateRelayConnected = False, mqttServer = [],
      stateMQTTConfigured = False, mqttOutgoingTopic = [], mqttIncomingTopic = [],
      factoryResetRequested = False, buttonLastPressed = False, timeSincebuttonPressed = 0,
      selectionState = 0, mqttClient_connected = False, restarted = False, effects = []\<rparr>"

subsection \<open>The ticker\<close>

text \<open>
  \<^verbatim>\<open>ticker.attach(0.1, pressHandler)\<close>: the handler runs once per tick, each time with the
  level of the button and the value of \<^verbatim>\<open>millis()\<close> of that tick.
\<close>

primrec run_pressHandler :: "(bool \<times> ulong) list \<Rightarrow> device \<Rightarrow> device" where
  "run_pressHandler [] d = d"
| "run_pressHandler (x # xs) d = run_pressHandler xs (pressHandler (fst x) (snd x) d)"

text \<open>
  One press and release as the handler sees it: the tick at \<open>t0\<close> that finds the button
  down, the ticks at \<open>ts\<close> that find it still down, the tick at \<open>tr\<close> that finds it up.
\<close>

definition press_cycle :: "ulong \<Rightarrow> ulong list \<Rightarrow> ulong \<Rightarrow> (bool \<times> ulong) list" where
  "press_cycle t0 ts tr = (True, t0) # map (Pair True) ts @ [(False, tr)]"

text \<open>
  The number of ticks of a run in which the handler raises \<open>userActionFeedbackRequest\<close>
  (the main loop lowers it again when it has blinked, so each tick is looked at with the
  flag down).
\<close>

primrec feedback_requests :: "(bool \<times> ulong) list \<Rightarrow> device \<Rightarrow> nat" where
  "feedback_requests [] d = 0"
| "feedback_requests (x # xs) d =
     (if userActionFeedbackRequest
           (pressHandler (fst x) (snd x) (d\<lparr>userActionFeedbackRequest := False\<rparr>))
      then 1 else 0)
     + feedback_requests xs (pressHandler (fst x) (snd x) d)"

subsection \<open>The button handler of the WPS variant\<close>

text \<open>
  The older variant of the sketch pairs by WPS. It has two more request flags, keeps
  whether WiFi is configured in the first byte behind the checksum, and its handler has
  three thresholds. Relay, MQTT publication and the button globals are as above.
\<close>

record wps_device = device +
  wpsRequested :: bool
  wifiResetRequested :: bool

definition TRIGGER_TIME_WPS :: ulong where "TRIGGER_TIME_WPS = 3000"
definition TRIGGER_TIME_WIFI_DATA_RESET :: ulong where "TRIGGER_TIME_WIFI_DATA_RESET = 10000"
definition EEPROM_address_WPS_configured :: nat where
  "EEPROM_address_WPS_configured = EEPROM_address_start"

definition checkWiFiConfigured :: "wps_device \<Rightarrow> bool" where
  "checkWiFiConfigured d \<longleftrightarrow>
     EEPROM_read (eeprom d) EEPROM_address_WPS_configured = EEPROM_enabled"

definition pressHandler_WPS :: "bool \<Rightarrow> ulong \<Rightarrow> wps_device \<Rightarrow> wps_device" where
  "pressHandler_WPS buttonPressed now d =
     (let d1 = (if \<not> buttonLastPressed d \<and> buttonPressed
                then d\<lparr>timeSincebuttonPressed := now\<rparr> else d);
          d2 = (if buttonLastPressed d \<and> buttonPressed then
                  (let pastTime = now - timeSincebuttonPressed d1;
                       a = (if pastTime > TRIGGER_TIME_WPS
                               \<and> selectionState d1 < TRIGGER_TIME_WPS
                            then (let a0 = d1\<lparr>selectionState := TRIGGER_TIME_WPS\<rparr>
                                  in if \<not> checkWiFiConfigured a0
                                     then a0\<lparr>userActionFeedbackRequest := True\<rparr> else a0)
                            else d1);
                       b = (if pastTime > TRIGGER_TIME_WIFI_DATA_RESET
                               \<and> selectionState a < TRIGGER_TIME_WIFI_DATA_RESET
                            then a\<lparr>selectionState := TRIGGER_TIME_WIFI_DATA_RESET,
                                   userActionFeedbackRequest := True\<rparr>
                            else a)
                   in if pastTime > TRIGGER_TIME_FACTORY_RESET
                         \<and> selectionState b < TRIGGER_TIME_FACTORY_RESET
                      then b\<lparr>selectionState := TRIGGER_TIME_FACTORY_RESET,
                             userActionFeedbackRequest := True\<rparr>
                      else b)
                else d1);
          d3 = (if buttonLastPressed d \<and> \<not> buttonPressed then
                  (let pastTime = now - timeSincebuttonPressed d2
                   in (if pastTime > TRIGGER_TIME_FACTORY_RESET
                       then d2\<lparr>factoryResetRequested := True\<rparr>
                       else if pastTime > TRIGGER_TIME_WIFI_DATA_RESET
                       then d2\<lparr>wifiResetRequested := True\<rparr>
                       else if pastTime > TRIGGER_TIME_WPS
                       then (if \<not> checkWiFiConfigured d2
                             then d2\<lparr>wpsRequested := True\<rparr> else d2)
                       else toggleRelay d2)\<lparr>selectionState := 0\<rparr>)
                else d2)
      in d3\<lparr>buttonLastPressed := buttonPressed\<rparr>)"

primrec run_pressHandler_WPS :: "(bool \<times> ulong) list \<Rightarrow> wps_device \<Rightarrow> wps_device" where
  "run_pressHandler_WPS [] d = d"
| "run_pressHandler_WPS (x # xs) d =
     run_pressHandler_WPS xs (pressHandler_WPS (fst x) (snd x) d)"

text \<open>The globals of the WPS variant at power-on.\<close>

definition power_on_WPS :: "byte list \<Rightarrow> wps_device" where
  "power_on_WPS sector = device.extend (power_on sector)
     \<lparr>wpsRequested = False, wifiResetRequested = False\<rparr>"

subsection \<open>The reference checksum\<close>

text \<open>
  The standard reflected CRC-32 as the specification names it: polynomial \<open>0xEDB88320\<close>,
  the register starts at \<open>0xFFFFFFFF\<close>, each byte is XORed into the low end and the
  register is shifted right eight times, the polynomial being XORed in whenever a one is
  shifted out, and the register is complemented once, at the end.
\<close>

definition crc32_bit :: "ulong \<Rightarrow> ulong" where
  "crc32_bit c = (if bit c 0 then drop_bit 1 c XOR 0xEDB88320 else drop_bit 1 c)"

definition crc32_update :: "byte \<Rightarrow> ulong \<Rightarrow> ulong" where
  "crc32_update b c = (crc32_bit ^^ 8) (c XOR ucast b)"

definition crc32_reference :: "byte list \<Rightarrow> ulong" where
  "crc32_reference bs = NOT (fold crc32_update bs (NOT 0))"

text \<open>
  The bit step on natural numbers, and with it the two ways of going through a zero
  byte: complementing after the byte, as \<^verbatim>\<open>calculate_crc\<close> does, and not.
\<close>

definition crc32_bit_nat :: "nat \<Rightarrow> nat" where
  "crc32_bit_nat x = (if odd x then (x div 2) XOR 0xEDB88320 else x div 2)"

definition zero_byte_nat :: "nat \<Rightarrow> nat" where
  "zero_byte_nat x =
     crc32_bit_nat (crc32_bit_nat (crc32_bit_nat (crc32_bit_nat
       (crc32_bit_nat (crc32_bit_nat (crc32_bit_nat (crc32_bit_nat x)))))))"

definition zero_byte_complemented_nat :: "nat \<Rightarrow> nat" where
  "zero_byte_complemented_nat x = zero_byte_nat x XOR 0xFFFFFFFF"

text \<open>What the bit step XORs in: the polynomial when a one is shifted out.\<close>

definition poly_if :: "bool \<Rightarrow> ulong" where
  "poly_if b = (if b then 0xEDB88320 else 0)"

subsection \<open>The classification the specification names\<close>

text \<open>
  The tier the specification assigns to a release: the thresholds are listed in
  increasing order and numbered from 1; the tier is the highest one whose threshold is at
  most the time held, and 0 (the short press) when there is none.
\<close>

definition claimed_tier :: "ulong list \<Rightarrow> ulong \<Rightarrow> nat" where
  "claimed_tier thresholds held = length (filter (\<lambda>t. t \<le> held) thresholds)"

section \<open>Verified properties\<close>

subsection \<open>The EEPROM loops\<close>

lemma length_EEPROM_write [simp]: "length (EEPROM_write a v e) = length e"
  by (simp add: EEPROM_write_def)

lemma nth_EEPROM_write:
  "k < length e \<Longrightarrow> EEPROM_write a v e ! k = (if k = a then v else e ! k)"
  by (simp add: EEPROM_write_def nth_list_update)

lemma length_write_loop [simp]: "length (write_loop src base n i e) = length e"
  by (induction src base n i e rule: write_loop.induct) (subst write_loop.simps, simp)

lemma nth_write_loop:
  "k < length e \<Longrightarrow>
   write_loop src base n i e ! k =
     (if base + i \<le> k \<and> k < base + n then src (k - base) else e ! k)"
proof (induction src base n i e rule: write_loop.induct)
  case (1 src base n i e)
  show ?case
  proof (cases "i < n")
    case True
    have "write_loop src base n i e ! k
            = write_loop src base n (i + 1) (EEPROM_write (base + i) (src i) e) ! k"
      using True by (subst write_loop.simps) simp
    also have "\<dots> = (if base + (i + 1) \<le> k \<and> k < base + n then src (k - base)
                      else EEPROM_write (base + i) (src i) e ! k)"
      using "1.IH" [OF True] "1.prems" by simp
    also have "\<dots> = (if base + i \<le> k \<and> k < base + n then src (k - base) else e ! k)"
      using "1.prems" True by (auto simp: nth_EEPROM_write)
    finally show ?thesis .
  next
    case False
    then show ?thesis by (subst write_loop.simps) auto
  qed
qed

lemma read_loop_eq: "read_loop e base n i = map (\<lambda>j. EEPROM_read e (base + j)) [i..<n]"
proof (induction e base n i rule: read_loop.induct)
  case (1 e base n i)
  show ?case
  proof (cases "i < n")
    case True
    then show ?thesis
      using "1.IH" by (subst read_loop.simps) (simp add: upt_conv_Cons)
  next
    case False
    then show ?thesis by (subst read_loop.simps) simp
  qed
qed

lemma drop_write_loop_below:
  assumes "base + n \<le> m"
  shows "drop m (write_loop src base n i e) = drop m e"
proof (rule nth_equalityI)
  show "length (drop m (write_loop src base n i e)) = length (drop m e)" by simp
next
  fix k assume "k < length (drop m (write_loop src base n i e))"
  then have "m + k < length e" by simp
  then show "drop m (write_loop src base n i e) ! k = drop m e ! k"
    using assms by (simp add: nth_write_loop)
qed

subsection \<open>The checksum as a fold, and its four stored bytes\<close>

lemma calculate_crc_loop_fold:
  "calculate_crc_loop e i crc = fold crc_byte (drop i e) crc"
proof (induction e i crc rule: calculate_crc_loop.induct)
  case (1 e i crc)
  show ?case
  proof (cases "i < length e")
    case True
    then have "drop i e = e ! i # drop (i + 1) e"
      by (simp add: Cons_nth_drop_Suc)
    then show ?thesis
      using True "1.IH" by (subst calculate_crc_loop.simps) (simp add: EEPROM_read_def)
  next
    case False
    then show ?thesis by (subst calculate_crc_loop.simps) simp
  qed
qed

lemma calculate_crc_fold:
  "calculate_crc e = fold crc_byte (drop EEPROM_address_start e) (- 1)"
  by (simp add: calculate_crc_def calculate_crc_loop_fold)

lemma calculate_crc_storeCRC [simp]: "calculate_crc (storeCRC e) = calculate_crc e"
  by (simp add: calculate_crc_fold storeCRC_def drop_write_loop_below
      EEPROM_address_start_def EEPROM_address_CRC_def EEPROM_size_CRC_def)

lemma length_storeCRC [simp]: "length (storeCRC e) = length e"
  by (simp add: storeCRC_def)

lemma ulong_of_p2crc:
  "ulong_of_bytes [p2crc c 0, p2crc c 1, p2crc c 2, p2crc c 3] = c"
  apply (rule bit_word_eqI)
  apply (auto simp add: p2crc_def bit_simps not_less)
  subgoal for n by (cases "n < 24") (simp_all add: not_less)
  done

lemma retrieveCRC_storeCRC:
  assumes "EEPROM_address_start \<le> length e"
  shows "retrieveCRC (storeCRC e) = calculate_crc e"
proof -
  have "read_loop (storeCRC e) EEPROM_address_CRC EEPROM_size_CRC 0
          = map (p2crc (calculate_crc e)) [0..<4]"
    using assms
    by (simp add: read_loop_eq storeCRC_def EEPROM_read_def nth_write_loop
        EEPROM_address_start_def EEPROM_address_CRC_def EEPROM_size_CRC_def)
  moreover have "[0..<4] = [0, 1, 2, 3::nat]" by (simp add: upt_rec)
  ultimately have "retrieveCRC (storeCRC e)
      = ulong_of_bytes [p2crc (calculate_crc e) 0, p2crc (calculate_crc e) 1,
                        p2crc (calculate_crc e) 2, p2crc (calculate_crc e) 3]"
    by (simp add: retrieveCRC_def)
  then show ?thesis by (simp only: ulong_of_p2crc)
qed

lemma checkCRC_storeCRC:
  "EEPROM_address_start \<le> length e \<Longrightarrow> checkCRC (storeCRC e)"
  by (simp add: checkCRC_def retrieveCRC_storeCRC)

lemma EEPROM_length_start: "EEPROM_address_start \<le> EEPROM_length"
  by (simp add: EEPROM_address_start_def EEPROM_length_def EEPROM_address_CRC_def
      EEPROM_size_CRC_def)

subsection \<open>What the write paths leave in RAM and in flash\<close>

lemma eeprom_saveOtaPasswordToEEPROM:
  "eeprom (saveOtaPasswordToEEPROM beyond d) =
     storeCRC (write_loop (c_str (arduinoOtaPassword d) beyond)
                 EEPROM_address_OTA_password EEPROM_size_OTA_password 0 (eeprom d))"
  by (simp add: saveOtaPasswordToEEPROM_def EEPROM_commit_def)

lemma flash_saveOtaPasswordToEEPROM:
  "flash (saveOtaPasswordToEEPROM beyond d) = eeprom (saveOtaPasswordToEEPROM beyond d)"
  by (simp add: saveOtaPasswordToEEPROM_def EEPROM_commit_def)

lemma eeprom_saveMQTTConfigurationToEEPROM:
  "eeprom (saveMQTTConfigurationToEEPROM beyond d) =
     storeCRC (write_loop (c_str (mqttServer d) beyond)
                 EEPROM_address_MQTT_server EEPROM_size_MQTT_server 0
                 (EEPROM_write EEPROM_address_MQTT_server_configured
                    (if stateMQTTConfigured d then EEPROM_enabled else EEPROM_init_value)
                    (eeprom d)))"
  by (simp add: saveMQTTConfigurationToEEPROM_def EEPROM_commit_def)

lemma flash_saveMQTTConfigurationToEEPROM:
  "flash (saveMQTTConfigurationToEEPROM beyond d) =
     eeprom (saveMQTTConfigurationToEEPROM beyond d)"
  by (simp add: saveMQTTConfigurationToEEPROM_def EEPROM_commit_def)

lemma length_eeprom_saveOtaPasswordToEEPROM [simp]:
  "length (eeprom (saveOtaPasswordToEEPROM beyond d)) = length (eeprom d)"
  by (simp add: eeprom_saveOtaPasswordToEEPROM)

lemma length_eeprom_saveMQTTConfigurationToEEPROM [simp]:
  "length (eeprom (saveMQTTConfigurationToEEPROM beyond d)) = length (eeprom d)"
  by (simp add: eeprom_saveMQTTConfigurationToEEPROM)

lemma length_eeprom_initEEPROM [simp]:
  "length (eeprom (initEEPROM chip beyond d)) = length (eeprom d)"
  by (simp add: initEEPROM_def storeEEPROMVersionNumber_def)

lemma flash_initEEPROM:
  "flash (initEEPROM chip beyond d) = eeprom (initEEPROM chip beyond d)"
  by (simp add: initEEPROM_def flash_saveOtaPasswordToEEPROM)

lemma checkCRC_saveOtaPasswordToEEPROM:
  "EEPROM_address_start \<le> length (eeprom d) \<Longrightarrow>
   checkCRC (eeprom (saveOtaPasswordToEEPROM beyond d))"
  by (simp add: eeprom_saveOtaPasswordToEEPROM checkCRC_storeCRC)

lemma checkCRC_saveMQTTConfigurationToEEPROM:
  "EEPROM_address_start \<le> length (eeprom d) \<Longrightarrow>
   checkCRC (eeprom (saveMQTTConfigurationToEEPROM beyond d))"
  by (simp add: eeprom_saveMQTTConfigurationToEEPROM checkCRC_storeCRC)

lemma checkCRC_initEEPROM:
  "EEPROM_address_start \<le> length (eeprom d) \<Longrightarrow>
   checkCRC (eeprom (initEEPROM chip beyond d))"
  by (simp add: initEEPROM_def checkCRC_saveOtaPasswordToEEPROM storeEEPROMVersionNumber_def)

lemma length_eeprom_begin_power_on [simp]:
  "length (eeprom (EEPROM_begin (power_on sector))) = length sector"
  by (simp add: EEPROM_begin_def power_on_def)

text \<open>
  C5. Each of the three paths by which the sketch makes a change durable (saving the MQTT
  configuration, saving the OTA password, initialising the whole EEPROM) ends with the
  flash sector equal to the RAM copy and with the checksum stored at bytes 1 to 4 equal to
  the checksum \<^verbatim>\<open>calculate_crc\<close> computes over the content then stored: each path calls
  \<^verbatim>\<open>storeCRC\<close> after its last write and before \<^verbatim>\<open>EEPROM.commit\<close>.
\<close>

theorem write_paths_store_current_checksum:
  assumes "length (eeprom d) = EEPROM_length"
  shows "(flash (saveMQTTConfigurationToEEPROM beyond d)
            = eeprom (saveMQTTConfigurationToEEPROM beyond d)
          \<and> retrieveCRC (flash (saveMQTTConfigurationToEEPROM beyond d))
            = calculate_crc (flash (saveMQTTConfigurationToEEPROM beyond d)))
       \<and> (flash (saveOtaPasswordToEEPROM beyond d) = eeprom (saveOtaPasswordToEEPROM beyond d)
          \<and> retrieveCRC (flash (saveOtaPasswordToEEPROM beyond d))
            = calculate_crc (flash (saveOtaPasswordToEEPROM beyond d)))
       \<and> (flash (initEEPROM chip beyond d) = eeprom (initEEPROM chip beyond d)
          \<and> retrieveCRC (flash (initEEPROM chip beyond d))
            = calculate_crc (flash (initEEPROM chip beyond d)))"
proof -
  have len: "EEPROM_address_start \<le> length (eeprom d)"
    using assms EEPROM_length_start by simp
  have "retrieveCRC (eeprom (saveMQTTConfigurationToEEPROM beyond d))
          = calculate_crc (eeprom (saveMQTTConfigurationToEEPROM beyond d))"
    using checkCRC_saveMQTTConfigurationToEEPROM [OF len] by (simp add: checkCRC_def)
  moreover have "retrieveCRC (eeprom (saveOtaPasswordToEEPROM beyond d))
          = calculate_crc (eeprom (saveOtaPasswordToEEPROM beyond d))"
    using checkCRC_saveOtaPasswordToEEPROM [OF len] by (simp add: checkCRC_def)
  moreover have "retrieveCRC (eeprom (initEEPROM chip beyond d))
          = calculate_crc (eeprom (initEEPROM chip beyond d))"
    using checkCRC_initEEPROM [OF len] by (simp add: checkCRC_def)
  ultimately show ?thesis
    by (simp add: flash_saveMQTTConfigurationToEEPROM flash_saveOtaPasswordToEEPROM
        flash_initEEPROM)
qed

theorem write_paths_store_current_checksum_witness:
  "length (eeprom (EEPROM_begin (power_on (replicate 4096 0)))) = EEPROM_length
   \<and> retrieveCRC (flash (saveMQTTConfigurationToEEPROM (\<lambda>i. 0)
                           (EEPROM_begin (power_on (replicate 4096 0)))))
     = calculate_crc (flash (saveMQTTConfigurationToEEPROM (\<lambda>i. 0)
                               (EEPROM_begin (power_on (replicate 4096 0)))))
   \<and> retrieveCRC (flash (initEEPROM ''1265369'' (\<lambda>i. 0)
                           (EEPROM_begin (power_on (replicate 4096 0)))))
     = calculate_crc (flash (initEEPROM ''1265369'' (\<lambda>i. 0)
                               (EEPROM_begin (power_on (replicate 4096 0)))))"
proof -
  have h: "length (eeprom (EEPROM_begin (power_on (replicate 4096 0)))) = EEPROM_length"
    by (simp add: EEPROM_length_def)
  show ?thesis
    using h write_paths_store_current_checksum [OF h, of "\<lambda>i. 0" "''1265369''"] by blast
qed

subsection \<open>Strings in the EEPROM\<close>

lemma char_of_byte_of_char [simp]: "char_of_byte (byte_of_char c) = c"
proof -
  have "of_char c < (256::nat)" by (rule nat_of_char_less_256)
  then have "unat (of_nat (of_char c) :: byte) = of_char c"
    by (simp add: unat_of_nat take_bit_nat_eq_self)
  then show ?thesis by (simp add: char_of_byte_def byte_of_char_def)
qed

lemma byte_of_char_eq_0_iff: "byte_of_char c = 0 \<longleftrightarrow> c = CHR 0x00"
proof
  assume "byte_of_char c = 0"
  then have "char_of_byte (byte_of_char c) = char_of_byte 0" by (rule arg_cong)
  then have "c = char_of_byte 0" by (simp only: char_of_byte_of_char)
  then show "c = CHR 0x00" by (simp add: char_of_byte_def char_of_def)
next
  assume "c = CHR 0x00"
  then show "byte_of_char c = 0" by (simp add: byte_of_char_def)
qed

lemma nth_storeCRC:
  "k < length e \<Longrightarrow> EEPROM_address_start \<le> k \<Longrightarrow> storeCRC e ! k = e ! k"
  by (simp add: storeCRC_def nth_write_loop EEPROM_address_start_def)

lemma map_c_str_slot:
  assumes "length s < n"
  shows "map (c_str s beyond) [0..<n]
           = map byte_of_char s @ 0 # map beyond [0..<n - Suc (length s)]"
proof (rule nth_equalityI)
  show "length (map (c_str s beyond) [0..<n])
          = length (map byte_of_char s @ 0 # map beyond [0..<n - Suc (length s)])"
    using assms by simp
next
  fix i assume "i < length (map (c_str s beyond) [0..<n])"
  then have i: "i < n" by simp
  show "map (c_str s beyond) [0..<n] ! i
          = (map byte_of_char s @ 0 # map beyond [0..<n - Suc (length s)]) ! i"
    using i assms by (auto simp: c_str_def nth_append nth_Cons')
qed

lemma String_of_buffer_c_str:
  assumes "length s < n" and "CHR 0x00 \<notin> set s"
  shows "String_of_buffer (map (c_str s beyond) [0..<n]) behind = s"
proof -
  have "\<forall>b \<in> set (map byte_of_char s). b \<noteq> 0"
    using assms(2) by (auto simp: byte_of_char_eq_0_iff)
  then have "takeWhile (\<lambda>b. b \<noteq> 0)
               (map byte_of_char s @ 0 # map beyond [0..<n - Suc (length s)] @ behind)
             = map byte_of_char s"
    by (simp del: set_map)
  then show ?thesis
    by (simp add: String_of_buffer_def map_c_str_slot [OF assms(1)] comp_def)
qed

lemma read_slot_saveMQTT:
  assumes "length (eeprom d) = EEPROM_length"
  shows "read_loop (eeprom (saveMQTTConfigurationToEEPROM beyond d))
           EEPROM_address_MQTT_server EEPROM_size_MQTT_server 0
         = map (c_str (mqttServer d) beyond) [0..<EEPROM_size_MQTT_server]"
  using assms
  by (simp add: read_loop_eq eeprom_saveMQTTConfigurationToEEPROM EEPROM_read_def
      nth_storeCRC nth_write_loop EEPROM_length_def EEPROM_address_MQTT_server_def
      EEPROM_address_MQTT_server_configured_def EEPROM_address_start_def
      EEPROM_address_CRC_def EEPROM_size_CRC_def EEPROM_enabled_size_def
      EEPROM_size_MQTT_server_def)

lemma read_flag_saveMQTT:
  assumes "length (eeprom d) = EEPROM_length"
  shows "EEPROM_read (eeprom (saveMQTTConfigurationToEEPROM beyond d))
           EEPROM_address_MQTT_server_configured
         = (if stateMQTTConfigured d then EEPROM_enabled else EEPROM_init_value)"
  using assms
  by (simp add: eeprom_saveMQTTConfigurationToEEPROM EEPROM_read_def
      nth_storeCRC nth_write_loop nth_EEPROM_write EEPROM_length_def EEPROM_address_MQTT_server_def
      EEPROM_address_MQTT_server_configured_def EEPROM_address_start_def
      EEPROM_address_CRC_def EEPROM_size_CRC_def EEPROM_enabled_size_def
      EEPROM_size_MQTT_server_def)

text \<open>
  C10 (as the code has it). What \<^verbatim>\<open>saveMQTTConfigurationToEEPROM\<close> leaves in the EEPROM
  is enough to get the configuration back: \<^verbatim>\<open>restoreMQTTConfigurationFromEEPROM\<close>, run in
  any state whose RAM copy of the EEPROM is the one the save left (after a restart, say,
  with all globals at their initial values), sets the server address and the configured
  flag to what they were at the save, for every address of at most 255 characters none of
  which is NUL. The address is stored as a C string and read back up to the first NUL.
  What the heap holds behind the string (\<open>beyond\<close>) and what the stack holds behind the
  buffer read back (\<open>behind\<close>) do not matter.
\<close>

theorem mqtt_configuration_roundtrip:
  assumes "length (eeprom d) = EEPROM_length"
    and "length (mqttServer d) \<le> 255"
    and "CHR 0x00 \<notin> set (mqttServer d)"
    and "eeprom d' = eeprom (saveMQTTConfigurationToEEPROM beyond d)"
  shows "mqttServer (restoreMQTTConfigurationFromEEPROM behind d') = mqttServer d
       \<and> stateMQTTConfigured (restoreMQTTConfigurationFromEEPROM behind d')
           = stateMQTTConfigured d"
proof -
  have "length (mqttServer d) < EEPROM_size_MQTT_server"
    using assms(2) by (simp add: EEPROM_size_MQTT_server_def)
  then have "String_of_buffer (map (c_str (mqttServer d) beyond) [0..<EEPROM_size_MQTT_server])
               behind = mqttServer d"
    using assms(3) by (rule String_of_buffer_c_str)
  moreover have "(if stateMQTTConfigured d then EEPROM_enabled else EEPROM_init_value)
                   = EEPROM_enabled \<longleftrightarrow> stateMQTTConfigured d"
    by (simp add: EEPROM_enabled_def EEPROM_init_value_def)
  ultimately show ?thesis
    by (simp add: restoreMQTTConfigurationFromEEPROM_def assms(4)
        read_slot_saveMQTT [OF assms(1)] read_flag_saveMQTT [OF assms(1)])
qed

text \<open>
  The witness restores after a restart: the globals are back at their initial values
  (empty address, flag false) and only the flash sector holds what was saved.
\<close>

theorem mqtt_configuration_roundtrip_witness:
  "length (eeprom ((EEPROM_begin (power_on (replicate 4096 0)))\<lparr>mqttServer := ''broker.local'', stateMQTTConfigured := True\<rparr>)) = EEPROM_length
   \<and> length (mqttServer ((EEPROM_begin (power_on (replicate 4096 0)))\<lparr>mqttServer := ''broker.local'', stateMQTTConfigured := True\<rparr>)) \<le> 255
   \<and> CHR 0x00 \<notin> set (mqttServer ((EEPROM_begin (power_on (replicate 4096 0)))\<lparr>mqttServer := ''broker.local'', stateMQTTConfigured := True\<rparr>))
   \<and> eeprom (EEPROM_begin (power_on (flash (saveMQTTConfigurationToEEPROM (\<lambda>i. 0xAA) ((EEPROM_begin (power_on (replicate 4096 0)))\<lparr>mqttServer := ''broker.local'', stateMQTTConfigured := True\<rparr>)))))
       = eeprom (saveMQTTConfigurationToEEPROM (\<lambda>i. 0xAA) ((EEPROM_begin (power_on (replicate 4096 0)))\<lparr>mqttServer := ''broker.local'', stateMQTTConfigured := True\<rparr>))
   \<and> mqttServer (EEPROM_begin (power_on (flash (saveMQTTConfigurationToEEPROM (\<lambda>i. 0xAA) ((EEPROM_begin (power_on (replicate 4096 0)))\<lparr>mqttServer := ''broker.local'', stateMQTTConfigured := True\<rparr>)))))
       = []
   \<and> \<not> stateMQTTConfigured
         (EEPROM_begin (power_on (flash (saveMQTTConfigurationToEEPROM (\<lambda>i. 0xAA) ((EEPROM_begin (power_on (replicate 4096 0)))\<lparr>mqttServer := ''broker.local'', stateMQTTConfigured := True\<rparr>)))))
   \<and> mqttServer (restoreMQTTConfigurationFromEEPROM [0x55, 0]
         (EEPROM_begin (power_on (flash (saveMQTTConfigurationToEEPROM (\<lambda>i. 0xAA) ((EEPROM_begin (power_on (replicate 4096 0)))\<lparr>mqttServer := ''broker.local'', stateMQTTConfigured := True\<rparr>))))))
       = ''broker.local''
   \<and> stateMQTTConfigured (restoreMQTTConfigurationFromEEPROM [0x55, 0]
         (EEPROM_begin (power_on (flash (saveMQTTConfigurationToEEPROM (\<lambda>i. 0xAA) ((EEPROM_begin (power_on (replicate 4096 0)))\<lparr>mqttServer := ''broker.local'', stateMQTTConfigured := True\<rparr>))))))"
proof -
  have h: "length (eeprom ((EEPROM_begin (power_on (replicate 4096 0)))\<lparr>mqttServer := ''broker.local'', stateMQTTConfigured := True\<rparr>)) = EEPROM_length" "length (mqttServer ((EEPROM_begin (power_on (replicate 4096 0)))\<lparr>mqttServer := ''broker.local'', stateMQTTConfigured := True\<rparr>)) \<le> 255"
    "CHR 0x00 \<notin> set (mqttServer ((EEPROM_begin (power_on (replicate 4096 0)))\<lparr>mqttServer := ''broker.local'', stateMQTTConfigured := True\<rparr>))"
    by (simp_all add: EEPROM_length_def EEPROM_begin_def power_on_def)
  have e: "eeprom (EEPROM_begin (power_on (flash (saveMQTTConfigurationToEEPROM (\<lambda>i. 0xAA) ((EEPROM_begin (power_on (replicate 4096 0)))\<lparr>mqttServer := ''broker.local'', stateMQTTConfigured := True\<rparr>)))))
       = eeprom (saveMQTTConfigurationToEEPROM (\<lambda>i. 0xAA) ((EEPROM_begin (power_on (replicate 4096 0)))\<lparr>mqttServer := ''broker.local'', stateMQTTConfigured := True\<rparr>))"
    by (simp add: EEPROM_begin_def power_on_def flash_saveMQTTConfigurationToEEPROM)
  have g: "mqttServer (EEPROM_begin (power_on (flash (saveMQTTConfigurationToEEPROM (\<lambda>i. 0xAA) ((EEPROM_begin (power_on (replicate 4096 0)))\<lparr>mqttServer := ''broker.local'', stateMQTTConfigured := True\<rparr>)))))
       = []"
    "\<not> stateMQTTConfigured
         (EEPROM_begin (power_on (flash (saveMQTTConfigurationToEEPROM (\<lambda>i. 0xAA) ((EEPROM_begin (power_on (replicate 4096 0)))\<lparr>mqttServer := ''broker.local'', stateMQTTConfigured := True\<rparr>)))))"
    by (simp_all add: EEPROM_begin_def power_on_def)
  have v: "mqttServer ((EEPROM_begin (power_on (replicate 4096 0)))\<lparr>mqttServer := ''broker.local'', stateMQTTConfigured := True\<rparr>) = ''broker.local''" "stateMQTTConfigured ((EEPROM_begin (power_on (replicate 4096 0)))\<lparr>mqttServer := ''broker.local'', stateMQTTConfigured := True\<rparr>)"
    by simp_all
  show ?thesis
    using h e g mqtt_configuration_roundtrip [OF h e, of "[0x55, 0]"] v by simp
qed

text \<open>
  An address of three characters whose second is NUL: saved and restored after a restart
  it comes back as its first character only.
\<close>

theorem nul_in_address_counterexample:
  "length (mqttServer ((EEPROM_begin (power_on (replicate 4096 0)))\<lparr>mqttServer := [CHR ''a'', CHR 0x00, CHR ''b'']\<rparr>)) \<le> 255
   \<and> mqttServer (restoreMQTTConfigurationFromEEPROM []
         (EEPROM_begin (power_on (flash (saveMQTTConfigurationToEEPROM (\<lambda>i. 0) ((EEPROM_begin (power_on (replicate 4096 0)))\<lparr>mqttServer := [CHR ''a'', CHR 0x00, CHR ''b'']\<rparr>))))))
       = [CHR ''a'']
   \<and> mqttServer (restoreMQTTConfigurationFromEEPROM []
         (EEPROM_begin (power_on (flash (saveMQTTConfigurationToEEPROM (\<lambda>i. 0) ((EEPROM_begin (power_on (replicate 4096 0)))\<lparr>mqttServer := [CHR ''a'', CHR 0x00, CHR ''b'']\<rparr>))))))
       \<noteq> mqttServer ((EEPROM_begin (power_on (replicate 4096 0)))\<lparr>mqttServer := [CHR ''a'', CHR 0x00, CHR ''b'']\<rparr>)"
proof -
  have len: "length (eeprom ((EEPROM_begin (power_on (replicate 4096 0)))\<lparr>mqttServer := [CHR ''a'', CHR 0x00, CHR ''b'']\<rparr>)) = EEPROM_length"
    by (simp add: EEPROM_length_def EEPROM_begin_def power_on_def)
  have e: "eeprom (EEPROM_begin (power_on (flash (saveMQTTConfigurationToEEPROM (\<lambda>i. 0) ((EEPROM_begin (power_on (replicate 4096 0)))\<lparr>mqttServer := [CHR ''a'', CHR 0x00, CHR ''b'']\<rparr>)))))
       = eeprom (saveMQTTConfigurationToEEPROM (\<lambda>i. 0) ((EEPROM_begin (power_on (replicate 4096 0)))\<lparr>mqttServer := [CHR ''a'', CHR 0x00, CHR ''b'']\<rparr>))"
    by (simp add: EEPROM_begin_def power_on_def flash_saveMQTTConfigurationToEEPROM)
  have s: "mqttServer ((EEPROM_begin (power_on (replicate 4096 0)))\<lparr>mqttServer := [CHR ''a'', CHR 0x00, CHR ''b'']\<rparr>) = [CHR ''a'', CHR 0x00, CHR ''b'']" by simp
  have a: "byte_of_char CHR ''a'' \<noteq> 0" "byte_of_char CHR 0x00 = 0"
    by (simp_all add: byte_of_char_eq_0_iff)
  have "map (c_str [CHR ''a'', CHR 0x00, CHR ''b''] (\<lambda>i. 0)) [0..<EEPROM_size_MQTT_server]
          = map byte_of_char [CHR ''a'', CHR 0x00, CHR ''b''] @ 0 #
              map (\<lambda>i. 0) [0..<EEPROM_size_MQTT_server - Suc (length [CHR ''a'', CHR 0x00, CHR ''b''])]"
    by (rule map_c_str_slot) (simp add: EEPROM_size_MQTT_server_def)
  then have "String_of_buffer
               (map (c_str [CHR ''a'', CHR 0x00, CHR ''b''] (\<lambda>i. 0)) [0..<EEPROM_size_MQTT_server]) []
             = [CHR ''a'']"
    using a by (simp add: String_of_buffer_def)
  then have "mqttServer (restoreMQTTConfigurationFromEEPROM []
         (EEPROM_begin (power_on (flash (saveMQTTConfigurationToEEPROM (\<lambda>i. 0) ((EEPROM_begin (power_on (replicate 4096 0)))\<lparr>mqttServer := [CHR ''a'', CHR 0x00, CHR ''b'']\<rparr>))))))
       = [CHR ''a'']"
    by (simp add: restoreMQTTConfigurationFromEEPROM_def e read_slot_saveMQTT [OF len] s)
  then show ?thesis using s by simp
qed

subsection \<open>Validation of the server address\<close>

lemma mqttServerValid_loop_iff:
  "mqttServerValid_loop s i \<longleftrightarrow> (\<forall>k. i \<le> k \<and> k < length s \<longrightarrow> \<not> isNotWhitelisted (s ! k))"
proof (induction s i rule: mqttServerValid_loop.induct)
  case (1 s i)
  show ?case
  proof (cases "i < length s")
    case True
    show ?thesis
    proof (cases "isNotWhitelisted (s ! i)")
      case True
      with \<open>i < length s\<close> show ?thesis
        by (subst mqttServerValid_loop.simps) auto
    next
      case False
      have "(\<forall>k. i \<le> k \<and> k < length s \<longrightarrow> \<not> isNotWhitelisted (s ! k))
            \<longleftrightarrow> (\<forall>k. i + 1 \<le> k \<and> k < length s \<longrightarrow> \<not> isNotWhitelisted (s ! k))"
        using False by (metis Suc_eq_plus1 Suc_leI le_eq_less_or_eq le_add1 le_trans)
      with False \<open>i < length s\<close> "1.IH" show ?thesis
        by (subst mqttServerValid_loop.simps) simp
    qed
  next
    case False
    then show ?thesis by (subst mqttServerValid_loop.simps) auto
  qed
qed

lemma mqttServerValid_iff:
  "mqttServerValid s \<longleftrightarrow>
     length s < EEPROM_size_MQTT_server \<and> (\<forall>c \<in> set s. \<not> isNotWhitelisted c)"
  by (auto simp: mqttServerValid_def mqttServerValid_loop_iff all_set_conv_all_nth not_le)

subsection \<open>The handler of the MQTT settings\<close>

lemma handle_mqtt_empty:
  "handle_mqtt beyond mqttState [] d =
     (let new = (if mqttState = ''on'' then True
                 else if mqttState = ''off'' then False else stateMQTTConfigured d);
          d1 = (if new \<noteq> stateMQTTConfigured d
                then configureMQTT (saveMQTTConfigurationToEEPROM beyond
                                      (d\<lparr>stateMQTTConfigured := new\<rparr>))
                else d)
      in emit (Webserver_send 200 (Page_mqtt (mqttServer d) [] new (mqttClient_connected d1))) d1)"
  by (simp add: handle_mqtt_def Let_def)

lemma mqttServer_configureMQTT [simp]: "mqttServer (configureMQTT d) = mqttServer d"
  by (simp add: configureMQTT_def emit_def)
lemma stateMQTTConfigured_configureMQTT [simp]:
  "stateMQTTConfigured (configureMQTT d) = stateMQTTConfigured d"
  by (simp add: configureMQTT_def emit_def)
lemma mqttClient_connected_configureMQTT [simp]:
  "mqttClient_connected (configureMQTT d) = False"
  by (simp add: configureMQTT_def emit_def)
lemma flash_configureMQTT [simp]: "flash (configureMQTT d) = flash d"
  by (simp add: configureMQTT_def emit_def)
lemma eeprom_configureMQTT [simp]: "eeprom (configureMQTT d) = eeprom d"
  by (simp add: configureMQTT_def emit_def)
lemma effects_configureMQTT:
  "effects (configureMQTT d) = effects d @ [MQTT_disconnect, MQTT_begin (mqttServer d), MQTT_onMessage]"
  by (simp add: configureMQTT_def emit_def)
lemma mqttServer_saveMQTT [simp]:
  "mqttServer (saveMQTTConfigurationToEEPROM beyond d) = mqttServer d"
  by (simp add: saveMQTTConfigurationToEEPROM_def EEPROM_commit_def)
lemma stateMQTTConfigured_saveMQTT [simp]:
  "stateMQTTConfigured (saveMQTTConfigurationToEEPROM beyond d) = stateMQTTConfigured d"
  by (simp add: saveMQTTConfigurationToEEPROM_def EEPROM_commit_def)
lemma effects_saveMQTT [simp]:
  "effects (saveMQTTConfigurationToEEPROM beyond d) = effects d"
  by (simp add: saveMQTTConfigurationToEEPROM_def EEPROM_commit_def)
lemma emit_fields [simp]:
  "mqttServer (emit x d) = mqttServer d"
  "stateMQTTConfigured (emit x d) = stateMQTTConfigured d"
  "eeprom (emit x d) = eeprom d"
  "flash (emit x d) = flash d"
  "mqttClient_connected (emit x d) = mqttClient_connected d"
  "effects (emit x d) = effects d @ [x]"
  by (simp_all add: emit_def)


lemma restore_from_flash_after_save:
  assumes "length (eeprom d) = EEPROM_length"
    and "length (mqttServer d) \<le> 255"
    and "CHR 0x00 \<notin> set (mqttServer d)"
  shows "mqttServer (restoreMQTTConfigurationFromEEPROM behind
           (EEPROM_begin (power_on (flash (saveMQTTConfigurationToEEPROM beyond d)))))
         = mqttServer d"
proof -
  have "length (mqttServer d) < EEPROM_size_MQTT_server"
    using assms(2) by (simp add: EEPROM_size_MQTT_server_def)
  then have "String_of_buffer (map (c_str (mqttServer d) beyond) [0..<EEPROM_size_MQTT_server])
               behind = mqttServer d"
    using assms(3) by (rule String_of_buffer_c_str)
  moreover have "eeprom (EEPROM_begin (power_on (flash (saveMQTTConfigurationToEEPROM beyond d))))
                   = eeprom (saveMQTTConfigurationToEEPROM beyond d)"
    by (simp add: EEPROM_begin_def power_on_def flash_saveMQTTConfigurationToEEPROM)
  ultimately show ?thesis
    by (simp add: restoreMQTTConfigurationFromEEPROM_def read_slot_saveMQTT [OF assms(1)])
qed

text \<open>
  C6. A request to \<^verbatim>\<open>/mqtt.html\<close> with an empty server address leaves the server address
  in memory as it is and sets the configured flag as the request says (\<open>on\<close>, \<open>off\<close>, or
  as before). When the flag stays the same the handler only answers; when it changes, the
  handler saves the old address with the new flag and configures the MQTT client again.
\<close>

theorem empty_server_address_keeps_address:
  "mqttServer (handle_mqtt beyond mqttState [] d) = mqttServer d
   \<and> stateMQTTConfigured (handle_mqtt beyond mqttState [] d)
       = (if mqttState = ''on'' then True
          else if mqttState = ''off'' then False else stateMQTTConfigured d)
   \<and> (stateMQTTConfigured (handle_mqtt beyond mqttState [] d) = stateMQTTConfigured d \<longrightarrow>
        handle_mqtt beyond mqttState [] d
          = emit (Webserver_send 200
                    (Page_mqtt (mqttServer d) [] (stateMQTTConfigured d) (mqttClient_connected d))) d)
   \<and> (stateMQTTConfigured (handle_mqtt beyond mqttState [] d) \<noteq> stateMQTTConfigured d \<longrightarrow>
        handle_mqtt beyond mqttState [] d
          = emit (Webserver_send 200
                    (Page_mqtt (mqttServer d) [] (\<not> stateMQTTConfigured d) False))
              (configureMQTT (saveMQTTConfigurationToEEPROM beyond
                                (d\<lparr>stateMQTTConfigured := \<not> stateMQTTConfigured d\<rparr>))))"
  by (auto simp add: handle_mqtt_empty Let_def)

theorem empty_server_address_keeps_address_witness:
  "stateMQTTConfigured (handle_mqtt (\<lambda>i. 0) ''on'' [] ((EEPROM_begin (power_on (replicate 4096 0)))\<lparr>mqttServer := ''broker.local''\<rparr>)) \<noteq> stateMQTTConfigured ((EEPROM_begin (power_on (replicate 4096 0)))\<lparr>mqttServer := ''broker.local''\<rparr>)
   \<and> mqttServer (handle_mqtt (\<lambda>i. 0) ''on'' [] ((EEPROM_begin (power_on (replicate 4096 0)))\<lparr>mqttServer := ''broker.local''\<rparr>)) = ''broker.local''
   \<and> effects (handle_mqtt (\<lambda>i. 0) ''on'' [] ((EEPROM_begin (power_on (replicate 4096 0)))\<lparr>mqttServer := ''broker.local''\<rparr>))
       = [MQTT_disconnect, MQTT_begin ''broker.local'', MQTT_onMessage,
          Webserver_send 200 (Page_mqtt ''broker.local'' [] True False)]
   \<and> stateMQTTConfigured (handle_mqtt (\<lambda>i. 0) [] [] ((EEPROM_begin (power_on (replicate 4096 0)))\<lparr>mqttServer := ''broker.local''\<rparr>)) = stateMQTTConfigured ((EEPROM_begin (power_on (replicate 4096 0)))\<lparr>mqttServer := ''broker.local''\<rparr>)
   \<and> handle_mqtt (\<lambda>i. 0) [] [] ((EEPROM_begin (power_on (replicate 4096 0)))\<lparr>mqttServer := ''broker.local''\<rparr>)
       = emit (Webserver_send 200 (Page_mqtt ''broker.local'' [] False False)) ((EEPROM_begin (power_on (replicate 4096 0)))\<lparr>mqttServer := ''broker.local''\<rparr>)"
proof -
  note on = empty_server_address_keeps_address [of "\<lambda>i. 0" "''on''" "((EEPROM_begin (power_on (replicate 4096 0)))\<lparr>mqttServer := ''broker.local''\<rparr>)"]
  note absent = empty_server_address_keeps_address [of "\<lambda>i. 0" "[]" "((EEPROM_begin (power_on (replicate 4096 0)))\<lparr>mqttServer := ''broker.local''\<rparr>)"]
  have s: "\<not> stateMQTTConfigured ((EEPROM_begin (power_on (replicate 4096 0)))\<lparr>mqttServer := ''broker.local''\<rparr>)" "mqttServer ((EEPROM_begin (power_on (replicate 4096 0)))\<lparr>mqttServer := ''broker.local''\<rparr>) = ''broker.local''"
    "\<not> mqttClient_connected ((EEPROM_begin (power_on (replicate 4096 0)))\<lparr>mqttServer := ''broker.local''\<rparr>)" "effects ((EEPROM_begin (power_on (replicate 4096 0)))\<lparr>mqttServer := ''broker.local''\<rparr>) = []"
    by (simp_all add: EEPROM_begin_def power_on_def)
  have 1: "stateMQTTConfigured (handle_mqtt (\<lambda>i. 0) ''on'' [] ((EEPROM_begin (power_on (replicate 4096 0)))\<lparr>mqttServer := ''broker.local''\<rparr>)) \<noteq> stateMQTTConfigured ((EEPROM_begin (power_on (replicate 4096 0)))\<lparr>mqttServer := ''broker.local''\<rparr>)"
    using on s by simp
  have 2: "stateMQTTConfigured (handle_mqtt (\<lambda>i. 0) [] [] ((EEPROM_begin (power_on (replicate 4096 0)))\<lparr>mqttServer := ''broker.local''\<rparr>)) = stateMQTTConfigured ((EEPROM_begin (power_on (replicate 4096 0)))\<lparr>mqttServer := ''broker.local''\<rparr>)"
    using absent by simp
  have 3: "handle_mqtt (\<lambda>i. 0) ''on'' [] ((EEPROM_begin (power_on (replicate 4096 0)))\<lparr>mqttServer := ''broker.local''\<rparr>)
          = emit (Webserver_send 200 (Page_mqtt (mqttServer ((EEPROM_begin (power_on (replicate 4096 0)))\<lparr>mqttServer := ''broker.local''\<rparr>)) [] (\<not> stateMQTTConfigured ((EEPROM_begin (power_on (replicate 4096 0)))\<lparr>mqttServer := ''broker.local''\<rparr>)) False))
              (configureMQTT (saveMQTTConfigurationToEEPROM (\<lambda>i. 0)
                                (((EEPROM_begin (power_on (replicate 4096 0)))\<lparr>mqttServer := ''broker.local''\<rparr>)\<lparr>stateMQTTConfigured := \<not> stateMQTTConfigured ((EEPROM_begin (power_on (replicate 4096 0)))\<lparr>mqttServer := ''broker.local''\<rparr>)\<rparr>)))"
    using on 1 by blast
  have 4: "handle_mqtt (\<lambda>i. 0) [] [] ((EEPROM_begin (power_on (replicate 4096 0)))\<lparr>mqttServer := ''broker.local''\<rparr>)
          = emit (Webserver_send 200
                    (Page_mqtt (mqttServer ((EEPROM_begin (power_on (replicate 4096 0)))\<lparr>mqttServer := ''broker.local''\<rparr>)) [] (stateMQTTConfigured ((EEPROM_begin (power_on (replicate 4096 0)))\<lparr>mqttServer := ''broker.local''\<rparr>)) (mqttClient_connected ((EEPROM_begin (power_on (replicate 4096 0)))\<lparr>mqttServer := ''broker.local''\<rparr>)))) ((EEPROM_begin (power_on (replicate 4096 0)))\<lparr>mqttServer := ''broker.local''\<rparr>)"
    using absent 2 by blast
  have 5: "effects (handle_mqtt (\<lambda>i. 0) ''on'' [] ((EEPROM_begin (power_on (replicate 4096 0)))\<lparr>mqttServer := ''broker.local''\<rparr>))
       = [MQTT_disconnect, MQTT_begin ''broker.local'', MQTT_onMessage,
          Webserver_send 200 (Page_mqtt ''broker.local'' [] True False)]"
    unfolding 3 using s by (simp add: effects_configureMQTT)
  have 6: "mqttServer (handle_mqtt (\<lambda>i. 0) ''on'' [] ((EEPROM_begin (power_on (replicate 4096 0)))\<lparr>mqttServer := ''broker.local''\<rparr>)) = ''broker.local''"
    using on s by simp
  show ?thesis using 1 2 4 5 6 s by simp
qed

text \<open>
  C1 (what the code does). A server address that is not empty, fails
  \<^verbatim>\<open>mqttServerValid\<close> and differs from the one in memory is answered with
  \<^verbatim>\<open>Input rejected, due to XSS mitigation.\<close>, and is nevertheless made the server address
  in memory, written to the EEPROM and committed, bound to the MQTT client, and sent back
  in the page: after the check the handler goes on with the submitted string.
\<close>

theorem rejected_server_address_is_stored:
  assumes "mqttserver \<noteq> []" and "\<not> mqttServerValid mqttserver"
    and "mqttserver \<noteq> mqttServer d"
  shows "handle_mqtt beyond mqttState mqttserver d
           = emit (Webserver_send 200
                     (Page_mqtt mqttserver ''Input rejected, due to XSS mitigation.''
                        (if mqttState = ''on'' then True
                         else if mqttState = ''off'' then False else stateMQTTConfigured d)
                        False))
               (configureMQTT
                  (saveMQTTConfigurationToEEPROM beyond
                     (d\<lparr>mqttServer := mqttserver,
                        stateMQTTConfigured :=
                          (if mqttState = ''on'' then True
                           else if mqttState = ''off'' then False
                           else stateMQTTConfigured d)\<rparr>)))"
  using assms by (simp add: handle_mqtt_def Let_def)

theorem rejected_server_address_is_stored_witness:
  "''evil<script>'' \<noteq> [] \<and> \<not> mqttServerValid ''evil<script>''
   \<and> ''evil<script>'' \<noteq> mqttServer (EEPROM_begin (power_on (replicate 4096 0)))
   \<and> mqttServer (handle_mqtt (\<lambda>i. 0) ''on'' ''evil<script>'' (EEPROM_begin (power_on (replicate 4096 0)))) = ''evil<script>''
   \<and> stateMQTTConfigured (handle_mqtt (\<lambda>i. 0) ''on'' ''evil<script>'' (EEPROM_begin (power_on (replicate 4096 0))))
   \<and> effects (handle_mqtt (\<lambda>i. 0) ''on'' ''evil<script>'' (EEPROM_begin (power_on (replicate 4096 0))))
       = [MQTT_disconnect, MQTT_begin ''evil<script>'', MQTT_onMessage,
          Webserver_send 200
            (Page_mqtt ''evil<script>'' ''Input rejected, due to XSS mitigation.'' True False)]
   \<and> mqttServer (restoreMQTTConfigurationFromEEPROM []
         (EEPROM_begin (power_on (flash (handle_mqtt (\<lambda>i. 0) ''on'' ''evil<script>'' (EEPROM_begin (power_on (replicate 4096 0))))))))
       = ''evil<script>''"
proof -
  have bad: "\<not> mqttServerValid ''evil<script>''"
    by (simp add: mqttServerValid_iff isNotWhitelisted_def)
  have s: "mqttServer (EEPROM_begin (power_on (replicate 4096 0))) = []" "effects (EEPROM_begin (power_on (replicate 4096 0))) = []" "length (eeprom (EEPROM_begin (power_on (replicate 4096 0)))) = EEPROM_length"
    by (simp_all add: EEPROM_begin_def power_on_def EEPROM_length_def)
  have ne: "''evil<script>'' \<noteq> []" "''evil<script>'' \<noteq> mqttServer (EEPROM_begin (power_on (replicate 4096 0)))"
    using s by simp_all
  note h = rejected_server_address_is_stored [OF ne(1) bad ne(2), of "\<lambda>i. 0" "''on''"]
  let ?d = "(EEPROM_begin (power_on (replicate 4096 0)))\<lparr>mqttServer := ''evil<script>'', stateMQTTConfigured := True\<rparr>"
  have h': "handle_mqtt (\<lambda>i. 0) ''on'' ''evil<script>'' (EEPROM_begin (power_on (replicate 4096 0)))
           = emit (Webserver_send 200
                     (Page_mqtt ''evil<script>'' ''Input rejected, due to XSS mitigation.''
                        True False))
               (configureMQTT (saveMQTTConfigurationToEEPROM (\<lambda>i. 0) ?d))"
    using h by simp
  have r: "mqttServer (restoreMQTTConfigurationFromEEPROM []
             (EEPROM_begin (power_on (flash (saveMQTTConfigurationToEEPROM (\<lambda>i. 0) ?d)))))
           = mqttServer ?d"
    by (rule restore_from_flash_after_save)
      (simp_all add: EEPROM_begin_def power_on_def EEPROM_length_def)
  show ?thesis
    unfolding h' using bad ne r s by (simp add: effects_configureMQTT)
qed

subsection \<open>The relay\<close>

text \<open>
  C9. \<^verbatim>\<open>connectRelay\<close> called twice: the relay flag is true after each call; each call
  writes the pin and, when the MQTT client is connected, publishes \<^verbatim>\<open>1\<close> (so two
  publications); when the client is not connected nothing is published, and nothing else
  of the state changes, so no publication is kept for later.
\<close>

theorem connectRelay_twice_publishes_twice:
  "stateRelayConnected (connectRelay d)
   \<and> stateRelayConnected (connectRelay (connectRelay d))
   \<and> connectRelay d
       = d\<lparr>stateRelayConnected := True,
            effects := effects d @ DigitalWrite pinRelay True #
              (if mqttClient_connected d then [MQTT_publish (mqttOutgoingTopic d) ''1'']
               else [])\<rparr>
   \<and> connectRelay (connectRelay d)
       = d\<lparr>stateRelayConnected := True,
            effects := effects d @ DigitalWrite pinRelay True #
              (if mqttClient_connected d then [MQTT_publish (mqttOutgoingTopic d) ''1'']
               else []) @ DigitalWrite pinRelay True #
              (if mqttClient_connected d then [MQTT_publish (mqttOutgoingTopic d) ''1'']
               else [])\<rparr>"
  by (simp add: connectRelay_def mqttPublish_def emit_def)

subsection \<open>The button handler, tick by tick\<close>

lemma handlers_no_reset:
  "\<exists>xs. effects (handleClient beyond req d) = effects d @ xs
        \<and> WiFiManager_resetSettings \<notin> set xs"
proof (cases req)
  case None
  then show ?thesis by simp
next
  case (Some r)
  then show ?thesis
    by (cases r)
      (auto simp add: handle_root_def handle_info_def handle_mqtt_def handle_ota_def
        handle_reset_def handle_wifi_def connectRelay_def disconnectRelay_def mqttPublish_def
        emit_def configureMQTT_def saveMQTTConfigurationToEEPROM_def
        saveOtaPasswordToEEPROM_def EEPROM_commit_def reboot_def Let_def)
qed

lemma pressHandler_edge:
  "\<not> buttonLastPressed d \<Longrightarrow>
   pressHandler True now d = d\<lparr>timeSincebuttonPressed := now, buttonLastPressed := True\<rparr>"
  by (simp add: pressHandler_def Let_def)

lemma pressHandler_hold:
  "buttonLastPressed d \<Longrightarrow>
   pressHandler True now d =
     (if now - timeSincebuttonPressed d > TRIGGER_TIME_FACTORY_RESET
         \<and> selectionState d < TRIGGER_TIME_FACTORY_RESET
      then d\<lparr>selectionState := TRIGGER_TIME_FACTORY_RESET, userActionFeedbackRequest := True,
             buttonLastPressed := True\<rparr>
      else d)"
  by (simp add: pressHandler_def Let_def)

lemma pressHandler_release:
  "buttonLastPressed d \<Longrightarrow>
   pressHandler False now d =
     (if now - timeSincebuttonPressed d > TRIGGER_TIME_FACTORY_RESET
      then d\<lparr>factoryResetRequested := True, selectionState := 0, buttonLastPressed := False\<rparr>
      else (toggleRelay d)\<lparr>selectionState := 0, buttonLastPressed := False\<rparr>)"
  by (simp add: pressHandler_def Let_def)

lemma pressHandler_idle:
  "\<not> buttonLastPressed d \<Longrightarrow> pressHandler False now d = d"
  by (simp add: pressHandler_def Let_def)

lemma toggleRelay_eq:
  "toggleRelay d =
     d\<lparr>stateRelayConnected := \<not> stateRelayConnected d,
       effects := effects d @ DigitalWrite pinRelay (\<not> stateRelayConnected d) #
         (if mqttClient_connected d
          then [MQTT_publish (mqttOutgoingTopic d) (if stateRelayConnected d then ''0'' else ''1'')]
          else [])\<rparr>"
  by (simp add: toggleRelay_def connectRelay_def disconnectRelay_def mqttPublish_def emit_def)

lemma run_hold_ticks:
  "buttonLastPressed h \<Longrightarrow>
   \<exists>s f. run_pressHandler (map (Pair True) ts) h
           = h\<lparr>selectionState := s, userActionFeedbackRequest := f\<rparr>"
proof (induction ts arbitrary: h)
  case Nil
  have "h = h\<lparr>selectionState := selectionState h,
               userActionFeedbackRequest := userActionFeedbackRequest h\<rparr>" by simp
  then show ?case by (metis list.simps(8) run_pressHandler.simps(1))
next
  case (Cons t ts)
  let ?h1 = "pressHandler True t h"
  have h1: "buttonLastPressed ?h1" using Cons.prems by (simp add: pressHandler_hold)
  obtain s f where sf: "run_pressHandler (map (Pair True) ts) ?h1
      = ?h1\<lparr>selectionState := s, userActionFeedbackRequest := f\<rparr>"
    using Cons.IH [OF h1] by blast
  have "?h1\<lparr>selectionState := s, userActionFeedbackRequest := f\<rparr>
          = h\<lparr>selectionState := s, userActionFeedbackRequest := f\<rparr>"
    using Cons.prems by (simp add: pressHandler_hold)
  with sf show ?case by auto
qed

lemma run_pressHandler_append:
  "run_pressHandler (xs @ ys) d = run_pressHandler ys (run_pressHandler xs d)"
  by (induction xs arbitrary: d) simp_all

lemma run_press_cycle:
  assumes "\<not> buttonLastPressed d"
  shows "\<exists>s f. run_pressHandler (press_cycle t0 ts tr) d =
           pressHandler False tr
             (d\<lparr>timeSincebuttonPressed := t0, buttonLastPressed := True,
                selectionState := s, userActionFeedbackRequest := f\<rparr>)"
proof -
  let ?h = "d\<lparr>timeSincebuttonPressed := t0, buttonLastPressed := True\<rparr>"
  have "buttonLastPressed ?h" by simp
  then obtain s f where "run_pressHandler (map (Pair True) ts) ?h
      = ?h\<lparr>selectionState := s, userActionFeedbackRequest := f\<rparr>"
    using run_hold_ticks by blast
  then show ?thesis
    using assms by (auto simp add: press_cycle_def run_pressHandler_append pressHandler_edge)
qed

lemma press_cycle_main:
  assumes "\<not> buttonLastPressed d"
  shows "(TRIGGER_TIME_FACTORY_RESET < tr - t0 \<longrightarrow>
            factoryResetRequested (run_pressHandler (press_cycle t0 ts tr) d)
          \<and> stateRelayConnected (run_pressHandler (press_cycle t0 ts tr) d)
              = stateRelayConnected d
          \<and> effects (run_pressHandler (press_cycle t0 ts tr) d) = effects d)
       \<and> (\<not> TRIGGER_TIME_FACTORY_RESET < tr - t0 \<longrightarrow>
            factoryResetRequested (run_pressHandler (press_cycle t0 ts tr) d)
              = factoryResetRequested d
          \<and> stateRelayConnected (run_pressHandler (press_cycle t0 ts tr) d)
              = (\<not> stateRelayConnected d)
          \<and> effects (run_pressHandler (press_cycle t0 ts tr) d)
              = effects d @ DigitalWrite pinRelay (\<not> stateRelayConnected d) #
                  (if mqttClient_connected d
                   then [MQTT_publish (mqttOutgoingTopic d)
                           (if stateRelayConnected d then ''0'' else ''1'')]
                   else []))"
proof -
  obtain s f where "run_pressHandler (press_cycle t0 ts tr) d =
           pressHandler False tr
             (d\<lparr>timeSincebuttonPressed := t0, buttonLastPressed := True,
                selectionState := s, userActionFeedbackRequest := f\<rparr>)"
    using run_press_cycle [OF assms] by blast
  then show ?thesis
    by (simp add: pressHandler_release toggleRelay_eq)
qed

lemma checkWiFiConfigured_upd [simp]:
  "checkWiFiConfigured (d\<lparr>selectionState := s\<rparr>) = checkWiFiConfigured d"
  "checkWiFiConfigured (d\<lparr>userActionFeedbackRequest := f\<rparr>) = checkWiFiConfigured d"
  "checkWiFiConfigured (d\<lparr>timeSincebuttonPressed := t\<rparr>) = checkWiFiConfigured d"
  "checkWiFiConfigured (d\<lparr>buttonLastPressed := b\<rparr>) = checkWiFiConfigured d"
  by (simp_all add: checkWiFiConfigured_def)

lemma thresholds_ordered:
  "TRIGGER_TIME_WPS < TRIGGER_TIME_WIFI_DATA_RESET"
  "TRIGGER_TIME_WIFI_DATA_RESET < TRIGGER_TIME_FACTORY_RESET"
  "TRIGGER_TIME_WPS < TRIGGER_TIME_FACTORY_RESET"
  by (simp_all add: TRIGGER_TIME_WPS_def TRIGGER_TIME_WIFI_DATA_RESET_def
      TRIGGER_TIME_FACTORY_RESET_def)

lemma pressHandler_WPS_edge:
  "\<not> buttonLastPressed d \<Longrightarrow>
   pressHandler_WPS True now d = d\<lparr>timeSincebuttonPressed := now, buttonLastPressed := True\<rparr>"
  by (simp add: pressHandler_WPS_def Let_def)

lemma pressHandler_WPS_hold:
  assumes "buttonLastPressed d"
  shows "pressHandler_WPS True now d =
     (let p = now - timeSincebuttonPressed d;
          s0 = selectionState d;
          s1 = (if TRIGGER_TIME_WPS < p \<and> s0 < TRIGGER_TIME_WPS then TRIGGER_TIME_WPS else s0);
          s2 = (if TRIGGER_TIME_WIFI_DATA_RESET < p \<and> s1 < TRIGGER_TIME_WIFI_DATA_RESET
                then TRIGGER_TIME_WIFI_DATA_RESET else s1);
          s3 = (if TRIGGER_TIME_FACTORY_RESET < p \<and> s2 < TRIGGER_TIME_FACTORY_RESET
                then TRIGGER_TIME_FACTORY_RESET else s2)
      in d\<lparr>selectionState := s3,
           userActionFeedbackRequest :=
             (userActionFeedbackRequest d
              \<or> TRIGGER_TIME_WPS < p \<and> s0 < TRIGGER_TIME_WPS \<and> \<not> checkWiFiConfigured d
              \<or> TRIGGER_TIME_WIFI_DATA_RESET < p \<and> s1 < TRIGGER_TIME_WIFI_DATA_RESET
              \<or> TRIGGER_TIME_FACTORY_RESET < p \<and> s2 < TRIGGER_TIME_FACTORY_RESET)\<rparr>)"
  using assms
  by (intro wps_device.equality) (auto simp add: pressHandler_WPS_def Let_def)

lemma pressHandler_WPS_release:
  assumes "buttonLastPressed d"
  shows "pressHandler_WPS False now d =
     (if TRIGGER_TIME_FACTORY_RESET < now - timeSincebuttonPressed d
      then d\<lparr>factoryResetRequested := True, selectionState := 0, buttonLastPressed := False\<rparr>
      else if TRIGGER_TIME_WIFI_DATA_RESET < now - timeSincebuttonPressed d
      then d\<lparr>selectionState := 0, buttonLastPressed := False, wifiResetRequested := True\<rparr>
      else if TRIGGER_TIME_WPS < now - timeSincebuttonPressed d
      then d\<lparr>selectionState := 0, buttonLastPressed := False,
             wpsRequested := (wpsRequested d \<or> \<not> checkWiFiConfigured d)\<rparr>
      else (toggleRelay d)\<lparr>selectionState := 0, buttonLastPressed := False\<rparr>)"
  using assms
  by (intro wps_device.equality) (auto simp add: pressHandler_WPS_def Let_def)

lemma run_hold_ticks_WPS:
  "buttonLastPressed h \<Longrightarrow>
   \<exists>s f. run_pressHandler_WPS (map (Pair True) ts) h
           = h\<lparr>selectionState := s, userActionFeedbackRequest := f\<rparr>"
proof (induction ts arbitrary: h)
  case Nil
  have "h = h\<lparr>selectionState := selectionState h,
               userActionFeedbackRequest := userActionFeedbackRequest h\<rparr>" by simp
  then show ?case
    by (intro exI [of _ "selectionState h"] exI [of _ "userActionFeedbackRequest h"]) simp
next
  case (Cons t ts)
  let ?h1 = "pressHandler_WPS True t h"
  have "\<exists>s1 f1. ?h1 = h\<lparr>selectionState := s1, userActionFeedbackRequest := f1\<rparr>"
    unfolding pressHandler_WPS_hold [OF Cons.prems] Let_def by blast
  then obtain s1 f1 where h1: "?h1 = h\<lparr>selectionState := s1, userActionFeedbackRequest := f1\<rparr>"
    by blast
  then have "buttonLastPressed ?h1" using Cons.prems by simp
  then obtain s f where sf: "run_pressHandler_WPS (map (Pair True) ts) ?h1
      = ?h1\<lparr>selectionState := s, userActionFeedbackRequest := f\<rparr>"
    using Cons.IH by blast
  have "?h1\<lparr>selectionState := s, userActionFeedbackRequest := f\<rparr>
          = h\<lparr>selectionState := s, userActionFeedbackRequest := f\<rparr>"
    by (simp add: h1)
  with sf show ?case by auto
qed

lemma run_pressHandler_WPS_append:
  "run_pressHandler_WPS (xs @ ys) d = run_pressHandler_WPS ys (run_pressHandler_WPS xs d)"
  by (induction xs arbitrary: d) simp_all

lemma run_press_cycle_WPS:
  assumes "\<not> buttonLastPressed d"
  shows "\<exists>s f. run_pressHandler_WPS (press_cycle t0 ts tr) d =
           pressHandler_WPS False tr
             (d\<lparr>timeSincebuttonPressed := t0, buttonLastPressed := True,
                selectionState := s, userActionFeedbackRequest := f\<rparr>)"
proof -
  let ?h = "d\<lparr>timeSincebuttonPressed := t0, buttonLastPressed := True\<rparr>"
  have "buttonLastPressed ?h" by simp
  then obtain s f where "run_pressHandler_WPS (map (Pair True) ts) ?h
      = ?h\<lparr>selectionState := s, userActionFeedbackRequest := f\<rparr>"
    using run_hold_ticks_WPS by blast
  then show ?thesis
    using assms
    by (auto simp add: press_cycle_def run_pressHandler_WPS_append pressHandler_WPS_edge)
qed

lemma press_cycle_WPS:
  assumes "\<not> buttonLastPressed w"
  shows "(TRIGGER_TIME_FACTORY_RESET < tr - t0 \<longrightarrow>
            factoryResetRequested (run_pressHandler_WPS (press_cycle t0 ts tr) w)
          \<and> wifiResetRequested (run_pressHandler_WPS (press_cycle t0 ts tr) w)
              = wifiResetRequested w
          \<and> wpsRequested (run_pressHandler_WPS (press_cycle t0 ts tr) w) = wpsRequested w
          \<and> stateRelayConnected (run_pressHandler_WPS (press_cycle t0 ts tr) w)
              = stateRelayConnected w
          \<and> effects (run_pressHandler_WPS (press_cycle t0 ts tr) w) = effects w)
       \<and> (\<not> TRIGGER_TIME_FACTORY_RESET < tr - t0
          \<and> TRIGGER_TIME_WIFI_DATA_RESET < tr - t0 \<longrightarrow>
            wifiResetRequested (run_pressHandler_WPS (press_cycle t0 ts tr) w)
          \<and> factoryResetRequested (run_pressHandler_WPS (press_cycle t0 ts tr) w)
              = factoryResetRequested w
          \<and> wpsRequested (run_pressHandler_WPS (press_cycle t0 ts tr) w) = wpsRequested w
          \<and> stateRelayConnected (run_pressHandler_WPS (press_cycle t0 ts tr) w)
              = stateRelayConnected w
          \<and> effects (run_pressHandler_WPS (press_cycle t0 ts tr) w) = effects w)
       \<and> (\<not> TRIGGER_TIME_WIFI_DATA_RESET < tr - t0 \<and> TRIGGER_TIME_WPS < tr - t0 \<longrightarrow>
            wpsRequested (run_pressHandler_WPS (press_cycle t0 ts tr) w)
              = (wpsRequested w \<or> \<not> checkWiFiConfigured w)
          \<and> factoryResetRequested (run_pressHandler_WPS (press_cycle t0 ts tr) w)
              = factoryResetRequested w
          \<and> wifiResetRequested (run_pressHandler_WPS (press_cycle t0 ts tr) w)
              = wifiResetRequested w
          \<and> stateRelayConnected (run_pressHandler_WPS (press_cycle t0 ts tr) w)
              = stateRelayConnected w
          \<and> effects (run_pressHandler_WPS (press_cycle t0 ts tr) w) = effects w)
       \<and> (\<not> TRIGGER_TIME_WPS < tr - t0 \<longrightarrow>
            stateRelayConnected (run_pressHandler_WPS (press_cycle t0 ts tr) w)
              = (\<not> stateRelayConnected w)
          \<and> factoryResetRequested (run_pressHandler_WPS (press_cycle t0 ts tr) w)
              = factoryResetRequested w
          \<and> wifiResetRequested (run_pressHandler_WPS (press_cycle t0 ts tr) w)
              = wifiResetRequested w
          \<and> wpsRequested (run_pressHandler_WPS (press_cycle t0 ts tr) w) = wpsRequested w
          \<and> effects (run_pressHandler_WPS (press_cycle t0 ts tr) w)
              = effects w @ DigitalWrite pinRelay (\<not> stateRelayConnected w) #
                  (if mqttClient_connected w
                   then [MQTT_publish (mqttOutgoingTopic w)
                           (if stateRelayConnected w then ''0'' else ''1'')]
                   else []))"
proof -
  obtain s f where "run_pressHandler_WPS (press_cycle t0 ts tr) w =
           pressHandler_WPS False tr
             (w\<lparr>timeSincebuttonPressed := t0, buttonLastPressed := True,
                selectionState := s, userActionFeedbackRequest := f\<rparr>)"
    using run_press_cycle_WPS [OF assms] by blast
  moreover have "\<not> TRIGGER_TIME_WPS < tr - t0 \<Longrightarrow> \<not> TRIGGER_TIME_WIFI_DATA_RESET < tr - t0"
    using thresholds_ordered(1) by (meson less_trans)
  moreover have "\<not> TRIGGER_TIME_WIFI_DATA_RESET < tr - t0 \<Longrightarrow> \<not> TRIGGER_TIME_FACTORY_RESET < tr - t0"
    using thresholds_ordered(2) by (meson less_trans)
  ultimately show ?thesis
    by (auto simp add: pressHandler_WPS_release toggleRelay_eq)
qed

lemma count_step:
  fixes T s :: ulong and ts :: "'a list"
  shows "(if P t \<and> s < T then 1 else 0) +
     (if (if P t \<and> s < T then T else s) < T \<and> (\<exists>t \<in> set ts. P t) then 1 else (0::nat))
     = (if s < T \<and> (\<exists>t \<in> set (t # ts). P t) then 1 else 0)"
proof (cases "P t \<and> s < T")
  case True
  then show ?thesis by simp
next
  case False
  then show ?thesis by (cases "s < T") simp_all
qed

lemma feedback_requests_hold:
  assumes "buttonLastPressed h"
  shows "feedback_requests (map (Pair True) ts @ [(False, tr)]) h =
     (if selectionState h < TRIGGER_TIME_FACTORY_RESET
         \<and> (\<exists>t \<in> set ts.
               TRIGGER_TIME_FACTORY_RESET < t - timeSincebuttonPressed h)
      then 1 else 0)"
  using assms
proof (induction ts arbitrary: h)
  case Nil
  then show ?case by (simp add: pressHandler_release toggleRelay_eq)
next
  case (Cons t ts)
  let ?h1 = "pressHandler True t h"
  have h1: "buttonLastPressed ?h1" using Cons.prems by (simp add: pressHandler_hold)
  have ts1: "timeSincebuttonPressed ?h1 = timeSincebuttonPressed h"
    using Cons.prems by (simp add: pressHandler_hold)
  have A: "userActionFeedbackRequest (pressHandler True t (h\<lparr>userActionFeedbackRequest := False\<rparr>))
             \<longleftrightarrow> TRIGGER_TIME_FACTORY_RESET < t - timeSincebuttonPressed h
                 \<and> selectionState h < TRIGGER_TIME_FACTORY_RESET"
    using Cons.prems by (simp add: pressHandler_hold)
  have C: "selectionState ?h1 =
             (if TRIGGER_TIME_FACTORY_RESET < t - timeSincebuttonPressed h
                 \<and> selectionState h < TRIGGER_TIME_FACTORY_RESET
              then TRIGGER_TIME_FACTORY_RESET else selectionState h)"
    using Cons.prems by (simp add: pressHandler_hold)
  have B: "feedback_requests (map (Pair True) ts @ [(False, tr)]) ?h1 =
     (if selectionState ?h1 < TRIGGER_TIME_FACTORY_RESET
         \<and> (\<exists>t \<in> set ts. TRIGGER_TIME_FACTORY_RESET < t - timeSincebuttonPressed h)
      then 1 else 0)"
    using Cons.IH [OF h1] by (simp only: ts1)
  have "feedback_requests (map (Pair True) (t # ts) @ [(False, tr)]) h =
          (if userActionFeedbackRequest
                (pressHandler True t (h\<lparr>userActionFeedbackRequest := False\<rparr>))
           then 1 else 0)
          + feedback_requests (map (Pair True) ts @ [(False, tr)]) ?h1"
    by simp
  also have "\<dots> =
     (if selectionState h < TRIGGER_TIME_FACTORY_RESET
         \<and> (\<exists>t \<in> set (t # ts).
               TRIGGER_TIME_FACTORY_RESET < t - timeSincebuttonPressed h)
      then 1 else 0)"
    unfolding A B C
    by (rule count_step [where P = "\<lambda>t. TRIGGER_TIME_FACTORY_RESET < t - timeSincebuttonPressed h"])
  finally show ?case .
qed

lemma feedback_requests_cycle:
  assumes "\<not> buttonLastPressed d" and "selectionState d = 0"
  shows "feedback_requests (press_cycle t0 ts tr) d =
           (if \<exists>t \<in> set ts. TRIGGER_TIME_FACTORY_RESET < t - t0 then 1 else 0)"
proof -
  have pos: "0 < TRIGGER_TIME_FACTORY_RESET" by (simp add: TRIGGER_TIME_FACTORY_RESET_def)
  let ?h = "d\<lparr>timeSincebuttonPressed := t0, buttonLastPressed := True\<rparr>"
  have "feedback_requests (map (Pair True) ts @ [(False, tr)]) ?h =
     (if selectionState ?h < TRIGGER_TIME_FACTORY_RESET
         \<and> (\<exists>t \<in> set ts. TRIGGER_TIME_FACTORY_RESET < t - timeSincebuttonPressed ?h)
      then 1 else 0)"
    by (rule feedback_requests_hold) simp
  then show ?thesis
    using assms
    by (simp add: press_cycle_def pressHandler_edge pos)
qed

subsection \<open>Selection state, feedback, and what the handler leaves alone\<close>

lemma selectionState_pressed_mono:
  "selectionState x \<le> selectionState (pressHandler True now x)"
proof (cases "buttonLastPressed x")
  case True
  then show ?thesis by (auto simp add: pressHandler_hold)
next
  case False
  then show ?thesis by (simp add: pressHandler_edge)
qed

lemma selectionState_release:
  "buttonLastPressed h \<Longrightarrow> selectionState (pressHandler False now h) = 0"
  by (simp add: pressHandler_release)

lemma wps_selection_step:
  fixes s0 p :: ulong
  shows "s0 \<le> (let s1 = (if TRIGGER_TIME_WPS < p \<and> s0 < TRIGGER_TIME_WPS then TRIGGER_TIME_WPS else s0);
          s2 = (if TRIGGER_TIME_WIFI_DATA_RESET < p \<and> s1 < TRIGGER_TIME_WIFI_DATA_RESET
                then TRIGGER_TIME_WIFI_DATA_RESET else s1);
          s3 = (if TRIGGER_TIME_FACTORY_RESET < p \<and> s2 < TRIGGER_TIME_FACTORY_RESET
                then TRIGGER_TIME_FACTORY_RESET else s2)
      in s3)"
  using thresholds_ordered
  by (simp add: Let_def) (meson less_imp_le less_trans order.refl)

lemma selectionState_pressed_mono_WPS:
  "selectionState w \<le> selectionState (pressHandler_WPS True now w)"
proof (cases "buttonLastPressed w")
  case True
  show ?thesis
    using wps_selection_step [of "selectionState w" "now - timeSincebuttonPressed w"]
    by (simp add: pressHandler_WPS_hold [OF True] Let_def)
next
  case False
  then show ?thesis by (simp add: pressHandler_WPS_edge)
qed

lemma selectionState_release_WPS:
  "buttonLastPressed w \<Longrightarrow> selectionState (pressHandler_WPS False now w) = 0"
  by (simp add: pressHandler_WPS_release)

lemma feedback_WPS_hold:
  assumes "buttonLastPressed w"
  shows "userActionFeedbackRequest
           (pressHandler_WPS True now (w\<lparr>userActionFeedbackRequest := False\<rparr>))
         \<longleftrightarrow>
           (TRIGGER_TIME_WPS < now - timeSincebuttonPressed w
              \<and> selectionState w < TRIGGER_TIME_WPS \<and> \<not> checkWiFiConfigured w)
         \<or> (TRIGGER_TIME_WIFI_DATA_RESET < now - timeSincebuttonPressed w
              \<and> selectionState w < TRIGGER_TIME_WIFI_DATA_RESET)
         \<or> (TRIGGER_TIME_FACTORY_RESET < now - timeSincebuttonPressed w
              \<and> selectionState w < TRIGGER_TIME_FACTORY_RESET)"
proof -
  have b: "buttonLastPressed (w\<lparr>userActionFeedbackRequest := False\<rparr>)"
    using assms by simp
  have o1: "\<And>x::ulong. x < TRIGGER_TIME_WPS \<Longrightarrow> x < TRIGGER_TIME_WIFI_DATA_RESET"
    using thresholds_ordered(1) by (meson less_trans)
  have o2: "\<And>x::ulong. x < TRIGGER_TIME_WIFI_DATA_RESET \<Longrightarrow> x < TRIGGER_TIME_FACTORY_RESET"
    using thresholds_ordered(2) by (meson less_trans)
  show ?thesis
    unfolding pressHandler_WPS_hold [OF b] Let_def
    using thresholds_ordered o1 o2 by auto
qed

lemma thresholds_recorded_WPS:
  assumes "buttonLastPressed w"
  shows "(TRIGGER_TIME_WPS < now - timeSincebuttonPressed w \<longrightarrow>
            TRIGGER_TIME_WPS \<le> selectionState (pressHandler_WPS True now w))
       \<and> (TRIGGER_TIME_WIFI_DATA_RESET < now - timeSincebuttonPressed w \<longrightarrow>
            TRIGGER_TIME_WIFI_DATA_RESET \<le> selectionState (pressHandler_WPS True now w))
       \<and> (TRIGGER_TIME_FACTORY_RESET < now - timeSincebuttonPressed w \<longrightarrow>
            TRIGGER_TIME_FACTORY_RESET \<le> selectionState (pressHandler_WPS True now w))"
proof -
  have o1: "\<And>x::ulong. TRIGGER_TIME_WIFI_DATA_RESET \<le> x \<Longrightarrow> TRIGGER_TIME_WPS \<le> x"
    using thresholds_ordered(1) by (meson less_imp_le order_trans)
  have o2: "\<And>x::ulong. TRIGGER_TIME_FACTORY_RESET \<le> x \<Longrightarrow> TRIGGER_TIME_WIFI_DATA_RESET \<le> x"
    using thresholds_ordered(2) by (meson less_imp_le order_trans)
  show ?thesis
    unfolding pressHandler_WPS_hold [OF assms] Let_def
    using o1 o2 by (auto simp add: not_less)
qed

lemma pressHandler_store_untouched:
  "eeprom (pressHandler b now d) = eeprom d
   \<and> flash (pressHandler b now d) = flash d
   \<and> mqttServer (pressHandler b now d) = mqttServer d
   \<and> stateMQTTConfigured (pressHandler b now d) = stateMQTTConfigured d
   \<and> arduinoOtaPassword (pressHandler b now d) = arduinoOtaPassword d
   \<and> restarted (pressHandler b now d) = restarted d
   \<and> (\<exists>xs. effects (pressHandler b now d) = effects d @ xs
            \<and> WiFiManager_resetSettings \<notin> set xs \<and> ESP_restart \<notin> set xs)"
  by (auto simp add: pressHandler_def Let_def toggleRelay_eq)

lemma effects_feedbackQuickBlink:
  "\<exists>xs. effects (feedbackQuickBlink d) = effects d @ xs
        \<and> WiFiManager_resetSettings \<notin> set xs"
  by (auto simp add: feedbackQuickBlink_def Let_def toggleLED_def switchOnLED_def
      switchOffLED_def emit_def)

lemma flags_feedbackQuickBlink [simp]:
  "factoryResetRequested (feedbackQuickBlink d) = factoryResetRequested d"
  "wifiCredentialChangeRequested (feedbackQuickBlink d) = wifiCredentialChangeRequested d"
  by (auto simp add: feedbackQuickBlink_def Let_def toggleLED_def switchOnLED_def
      switchOffLED_def emit_def)

lemma effects_changeWiFiCredentials:
  "\<exists>xs. effects (changeWiFiCredentials d) = effects d @ xs
        \<and> WiFiManager_resetSettings \<notin> set xs"
  by (simp add: changeWiFiCredentials_def reboot_def emit_def)

lemma effects_mqtt_part:
  "\<exists>xs. effects (mqttClient_loop msg d) = effects d @ xs \<and> WiFiManager_resetSettings \<notin> set xs"
  "\<exists>xs. effects (mqttConnect mac ok d) = effects d @ xs \<and> WiFiManager_resetSettings \<notin> set xs"
  by (auto simp add: mqttClient_loop_def mqttControlRelay_def mqttConnect_def Let_def
      connectRelay_def disconnectRelay_def mqttPublish_def emit_def split: option.splits)

lemma no_reset_trans:
  assumes "\<exists>xs. e2 = e1 @ xs \<and> (R::effect) \<notin> set xs"
    and "\<exists>ys. e3 = e2 @ ys \<and> R \<notin> set ys"
  shows "\<exists>zs. e3 = e1 @ zs \<and> R \<notin> set zs"
  using assms by auto

lemma loop_after_blink_no_reset:
  assumes "\<not> factoryResetRequested d1"
  shows "\<exists>xs. effects
          (if wifiCredentialChangeRequested d1 then changeWiFiCredentials d1
           else if factoryResetRequested d1 then
             performFactoryReset (in_chip inp) (in_beyond inp) d1
           else if in_wifiConnected inp then
             (let d2 = handleClient (in_beyond inp) (in_request inp) (emit ArduinoOTA_handle d1)
              in if restarted d2 then d2
                 else if stateMQTTConfigured d2 then
                   (if mqttClient_connected d2 then mqttClient_loop (in_mqttMessage inp) d2
                    else mqttConnect (in_mac inp) (in_mqttConnectOk inp) d2)
                 else d2)
           else d1) = effects d1 @ xs \<and> WiFiManager_resetSettings \<notin> set xs"
proof -
  let ?d2 = "handleClient (in_beyond inp) (in_request inp) (emit ArduinoOTA_handle d1)"
  have a: "\<exists>xs. effects (emit ArduinoOTA_handle d1) = effects d1 @ xs
             \<and> WiFiManager_resetSettings \<notin> set xs"
    by simp
  have h: "\<exists>xs. effects ?d2 = effects d1 @ xs \<and> WiFiManager_resetSettings \<notin> set xs"
    by (rule no_reset_trans [OF a handlers_no_reset])
  have m1: "\<exists>xs. effects (mqttClient_loop (in_mqttMessage inp) ?d2) = effects d1 @ xs
             \<and> WiFiManager_resetSettings \<notin> set xs"
    by (rule no_reset_trans [OF h effects_mqtt_part(1)])
  have m2: "\<exists>xs. effects (mqttConnect (in_mac inp) (in_mqttConnectOk inp) ?d2) = effects d1 @ xs
             \<and> WiFiManager_resetSettings \<notin> set xs"
    by (rule no_reset_trans [OF h effects_mqtt_part(2)])
  show ?thesis
    using assms effects_changeWiFiCredentials [of d1] h m1 m2
    by (simp add: Let_def)
qed

lemma loop_no_reset:
  assumes "\<not> factoryResetRequested d"
  shows "\<exists>xs. effects (loop inp d) = effects d @ xs \<and> WiFiManager_resetSettings \<notin> set xs"
proof (cases "userActionFeedbackRequest d")
  case True
  have "\<not> factoryResetRequested (feedbackQuickBlink d)" using assms by simp
  from loop_after_blink_no_reset [OF this, of inp]
  have "\<exists>xs. effects (loop inp d) = effects (feedbackQuickBlink d) @ xs
          \<and> WiFiManager_resetSettings \<notin> set xs"
    using True by (simp add: loop_def Let_def)
  with effects_feedbackQuickBlink [of d] show ?thesis
    by (rule no_reset_trans)
next
  case False
  from loop_after_blink_no_reset [OF assms, of inp]
  show ?thesis using False by (simp add: loop_def Let_def)
qed

lemma loop_performs_reset:
  assumes "factoryResetRequested d" and "\<not> wifiCredentialChangeRequested d"
  shows "loop inp d = performFactoryReset (in_chip inp) (in_beyond inp)
                        (if userActionFeedbackRequest d then feedbackQuickBlink d else d)"
  using assms by (simp add: loop_def Let_def)

lemma effects_saveOta [simp]: "effects (saveOtaPasswordToEEPROM beyond d) = effects d"
  by (simp add: saveOtaPasswordToEEPROM_def EEPROM_commit_def)

lemma effects_performFactoryReset:
  "effects (performFactoryReset chip beyond d)
     = effects d @ [WiFiManager_resetSettings, Delay 1000, ESP_restart]"
  by (simp add: performFactoryReset_def reboot_def initEEPROM_def emit_def)

subsection \<open>The claims about the button\<close>

text \<open>
  C2 (as the code has it). One press and release, from a state in which the handler has
  last seen the button up, ends in exactly one action, chosen by the time held
  \<open>tr - t0\<close> (computed in 32 bit arithmetic, as \<^verbatim>\<open>millis()\<close> wraps), each threshold
  counting only when the time held is strictly greater. In the sketch: a factory reset
  request above 15000 ms, otherwise one toggle of the relay. In the WPS variant: a factory
  reset request above 15000 ms, else a WiFi reset request above 10000 ms, else above
  3000 ms a WPS request when WiFi is not configured and nothing at all when it is, else
  one toggle of the relay. The ticks while the button is held change none of this.
\<close>

theorem release_gesture_by_held_duration:
  assumes "\<not> buttonLastPressed d" and "\<not> buttonLastPressed w"
  shows "((TRIGGER_TIME_FACTORY_RESET < tr - t0 \<longrightarrow>
             factoryResetRequested (run_pressHandler (press_cycle t0 ts tr) d)
           \<and> stateRelayConnected (run_pressHandler (press_cycle t0 ts tr) d)
               = stateRelayConnected d
           \<and> effects (run_pressHandler (press_cycle t0 ts tr) d) = effects d)
        \<and> (\<not> TRIGGER_TIME_FACTORY_RESET < tr - t0 \<longrightarrow>
             factoryResetRequested (run_pressHandler (press_cycle t0 ts tr) d)
               = factoryResetRequested d
           \<and> stateRelayConnected (run_pressHandler (press_cycle t0 ts tr) d)
               = (\<not> stateRelayConnected d)
           \<and> effects (run_pressHandler (press_cycle t0 ts tr) d)
               = effects d @ DigitalWrite pinRelay (\<not> stateRelayConnected d) #
                   (if mqttClient_connected d
                    then [MQTT_publish (mqttOutgoingTopic d)
                            (if stateRelayConnected d then ''0'' else ''1'')]
                    else [])))
       \<and> ((TRIGGER_TIME_FACTORY_RESET < tr - t0 \<longrightarrow>
             factoryResetRequested (run_pressHandler_WPS (press_cycle t0 ts tr) w)
           \<and> wifiResetRequested (run_pressHandler_WPS (press_cycle t0 ts tr) w)
               = wifiResetRequested w
           \<and> wpsRequested (run_pressHandler_WPS (press_cycle t0 ts tr) w) = wpsRequested w
           \<and> stateRelayConnected (run_pressHandler_WPS (press_cycle t0 ts tr) w)
               = stateRelayConnected w
           \<and> effects (run_pressHandler_WPS (press_cycle t0 ts tr) w) = effects w)
        \<and> (\<not> TRIGGER_TIME_FACTORY_RESET < tr - t0
           \<and> TRIGGER_TIME_WIFI_DATA_RESET < tr - t0 \<longrightarrow>
             wifiResetRequested (run_pressHandler_WPS (press_cycle t0 ts tr) w)
           \<and> factoryResetRequested (run_pressHandler_WPS (press_cycle t0 ts tr) w)
               = factoryResetRequested w
           \<and> wpsRequested (run_pressHandler_WPS (press_cycle t0 ts tr) w) = wpsRequested w
           \<and> stateRelayConnected (run_pressHandler_WPS (press_cycle t0 ts tr) w)
               = stateRelayConnected w
           \<and> effects (run_pressHandler_WPS (press_cycle t0 ts tr) w) = effects w)
        \<and> (\<not> TRIGGER_TIME_WIFI_DATA_RESET < tr - t0 \<and> TRIGGER_TIME_WPS < tr - t0 \<longrightarrow>
             wpsRequested (run_pressHandler_WPS (press_cycle t0 ts tr) w)
               = (wpsRequested w \<or> \<not> checkWiFiConfigured w)
           \<and> factoryResetRequested (run_pressHandler_WPS (press_cycle t0 ts tr) w)
               = factoryResetRequested w
           \<and> wifiResetRequested (run_pressHandler_WPS (press_cycle t0 ts tr) w)
               = wifiResetRequested w
           \<and> stateRelayConnected (run_pressHandler_WPS (press_cycle t0 ts tr) w)
               = stateRelayConnected w
           \<and> effects (run_pressHandler_WPS (press_cycle t0 ts tr) w) = effects w)
        \<and> (\<not> TRIGGER_TIME_WPS < tr - t0 \<longrightarrow>
             stateRelayConnected (run_pressHandler_WPS (press_cycle t0 ts tr) w)
               = (\<not> stateRelayConnected w)
           \<and> factoryResetRequested (run_pressHandler_WPS (press_cycle t0 ts tr) w)
               = factoryResetRequested w
           \<and> wifiResetRequested (run_pressHandler_WPS (press_cycle t0 ts tr) w)
               = wifiResetRequested w
           \<and> wpsRequested (run_pressHandler_WPS (press_cycle t0 ts tr) w) = wpsRequested w
           \<and> effects (run_pressHandler_WPS (press_cycle t0 ts tr) w)
               = effects w @ DigitalWrite pinRelay (\<not> stateRelayConnected w) #
                   (if mqttClient_connected w
                    then [MQTT_publish (mqttOutgoingTopic w)
                            (if stateRelayConnected w then ''0'' else ''1'')]
                    else [])))"
  using press_cycle_main [OF assms(1), of tr t0 ts] press_cycle_WPS [OF assms(2), of tr t0 ts]
  by blast

theorem release_gesture_by_held_duration_witness:
  "\<not> buttonLastPressed (power_on (replicate 4096 0)) \<and> \<not> buttonLastPressed (power_on_WPS (replicate 4096 0))
   \<and> factoryResetRequested (run_pressHandler (press_cycle 1000 [1100, 9000, 17000] 17100) (power_on (replicate 4096 0)))
   \<and> effects (run_pressHandler (press_cycle 1000 [1100, 9000, 17000] 17100) (power_on (replicate 4096 0))) = []
   \<and> stateRelayConnected (run_pressHandler (press_cycle 1000 [1100] 1200) (power_on (replicate 4096 0)))
   \<and> effects (run_pressHandler (press_cycle 1000 [1100] 1200) (power_on (replicate 4096 0))) = [DigitalWrite pinRelay True]
   \<and> wifiResetRequested (run_pressHandler_WPS (press_cycle 1000 [1100] 13000) (power_on_WPS (replicate 4096 0)))
   \<and> wpsRequested (run_pressHandler_WPS (press_cycle 1000 [1100] 5000) (power_on_WPS (replicate 4096 0)))"
proof -
  have s: "\<not> buttonLastPressed (power_on (replicate 4096 0))" "\<not> buttonLastPressed (power_on_WPS (replicate 4096 0))"
    "\<not> stateRelayConnected (power_on (replicate 4096 0))" "\<not> mqttClient_connected (power_on (replicate 4096 0))" "effects (power_on (replicate 4096 0)) = []"
    "\<not> checkWiFiConfigured (power_on_WPS (replicate 4096 0))"
    by (simp_all add: power_on_def power_on_WPS_def device.extend_def checkWiFiConfigured_def
        EEPROM_read_def EEPROM_enabled_def)
  have t: "TRIGGER_TIME_FACTORY_RESET < 17100 - 1000"
    "\<not> TRIGGER_TIME_FACTORY_RESET < 1200 - 1000"
    "\<not> TRIGGER_TIME_FACTORY_RESET < 13000 - 1000"
    "TRIGGER_TIME_WIFI_DATA_RESET < 13000 - 1000"
    "\<not> TRIGGER_TIME_WIFI_DATA_RESET < 5000 - 1000"
    "TRIGGER_TIME_WPS < 5000 - 1000"
    by (simp_all add: TRIGGER_TIME_FACTORY_RESET_def TRIGGER_TIME_WIFI_DATA_RESET_def
        TRIGGER_TIME_WPS_def)
  note a = release_gesture_by_held_duration [OF s(1) s(2), of 17100 1000 "[1100, 9000, 17000]"]
  note b = release_gesture_by_held_duration [OF s(1) s(2), of 1200 1000 "[1100]"]
  note c = release_gesture_by_held_duration [OF s(1) s(2), of 13000 1000 "[1100]"]
  note e = release_gesture_by_held_duration [OF s(1) s(2), of 5000 1000 "[1100]"]
  have 1: "factoryResetRequested (run_pressHandler (press_cycle 1000 [1100, 9000, 17000] 17100) (power_on (replicate 4096 0)))"
    "effects (run_pressHandler (press_cycle 1000 [1100, 9000, 17000] 17100) (power_on (replicate 4096 0))) = []"
    using a t(1) s(5) by simp_all
  have 2: "stateRelayConnected (run_pressHandler (press_cycle 1000 [1100] 1200) (power_on (replicate 4096 0)))"
    "effects (run_pressHandler (press_cycle 1000 [1100] 1200) (power_on (replicate 4096 0))) = [DigitalWrite pinRelay True]"
    using b t(2) s(3,4,5) by simp_all
  have 3: "wifiResetRequested (run_pressHandler_WPS (press_cycle 1000 [1100] 13000) (power_on_WPS (replicate 4096 0)))"
    using c t(3,4) by blast
  have 4: "wpsRequested (run_pressHandler_WPS (press_cycle 1000 [1100] 5000) (power_on_WPS (replicate 4096 0)))"
    using e t(5,6) s(6) by blast
  show ?thesis using s(1,2) 1 2 3 4 by simp
qed

text \<open>
  Held for exactly 15000 ms: the threshold is at most the time held, so the tier of the
  claim is the factory reset, while the sketch toggles the relay and requests no reset.
\<close>

theorem held_equal_to_threshold_counterexample:
  "claimed_tier [TRIGGER_TIME_FACTORY_RESET] (15000 - 0) = 1
   \<and> \<not> factoryResetRequested (run_pressHandler (press_cycle 0 [] 15000) (power_on (replicate 4096 0)))
   \<and> stateRelayConnected (run_pressHandler (press_cycle 0 [] 15000) (power_on (replicate 4096 0)))"
proof -
  have s: "\<not> buttonLastPressed (power_on (replicate 4096 0))" "\<not> stateRelayConnected (power_on (replicate 4096 0))" "\<not> factoryResetRequested (power_on (replicate 4096 0))"
    by (simp_all add: power_on_def)
  have t: "\<not> TRIGGER_TIME_FACTORY_RESET < 15000 - 0"
    by (simp add: TRIGGER_TIME_FACTORY_RESET_def)
  have c: "claimed_tier [TRIGGER_TIME_FACTORY_RESET] (15000 - 0) = 1"
    by (simp add: claimed_tier_def TRIGGER_TIME_FACTORY_RESET_def)
  show ?thesis
    using press_cycle_main [OF s(1), of 15000 0 "[]"] t s(2,3) c by simp
qed

text \<open>
  C7 (as the code has it). A tick that finds the button down never lowers
  \<open>selectionState\<close>, and the tick that finds it released sets it to zero. In the sketch,
  over one press and release begun with \<open>selectionState\<close> at zero, the handler raises the
  feedback request in exactly one tick when some tick of the hold sees more than 15000 ms,
  and in none otherwise. In the WPS variant a tick of the hold raises the request exactly
  when it newly passes 10000 ms or 15000 ms, or newly passes 3000 ms while WiFi is not
  configured: passing 3000 ms with WiFi configured is recorded in \<open>selectionState\<close> but
  asks for no feedback. A threshold passed is recorded, so it is not passed again before
  the release.
\<close>

theorem selection_monotone_and_feedback:
  assumes "\<not> buttonLastPressed d" and "selectionState d = 0"
    and "buttonLastPressed h" and "buttonLastPressed w"
  shows "selectionState x \<le> selectionState (pressHandler True now x)
       \<and> selectionState (pressHandler False now h) = 0
       \<and> feedback_requests (press_cycle t0 ts tr) d
           = (if \<exists>t \<in> set ts. TRIGGER_TIME_FACTORY_RESET < t - t0 then 1 else 0)
       \<and> selectionState y \<le> selectionState (pressHandler_WPS True now y)
       \<and> selectionState (pressHandler_WPS False now w) = 0
       \<and> (userActionFeedbackRequest
             (pressHandler_WPS True now (w\<lparr>userActionFeedbackRequest := False\<rparr>))
           \<longleftrightarrow>
             (TRIGGER_TIME_WPS < now - timeSincebuttonPressed w
                \<and> selectionState w < TRIGGER_TIME_WPS \<and> \<not> checkWiFiConfigured w)
           \<or> (TRIGGER_TIME_WIFI_DATA_RESET < now - timeSincebuttonPressed w
                \<and> selectionState w < TRIGGER_TIME_WIFI_DATA_RESET)
           \<or> (TRIGGER_TIME_FACTORY_RESET < now - timeSincebuttonPressed w
                \<and> selectionState w < TRIGGER_TIME_FACTORY_RESET))
       \<and> (TRIGGER_TIME_WPS < now - timeSincebuttonPressed w \<longrightarrow>
            TRIGGER_TIME_WPS \<le> selectionState (pressHandler_WPS True now w))
       \<and> (TRIGGER_TIME_WIFI_DATA_RESET < now - timeSincebuttonPressed w \<longrightarrow>
            TRIGGER_TIME_WIFI_DATA_RESET \<le> selectionState (pressHandler_WPS True now w))
       \<and> (TRIGGER_TIME_FACTORY_RESET < now - timeSincebuttonPressed w \<longrightarrow>
            TRIGGER_TIME_FACTORY_RESET \<le> selectionState (pressHandler_WPS True now w))"
  using selectionState_pressed_mono [of x now] selectionState_release [OF assms(3), of now]
    feedback_requests_cycle [OF assms(1,2), of t0 ts tr]
    selectionState_pressed_mono_WPS [of y now] selectionState_release_WPS [OF assms(4), of now]
    feedback_WPS_hold [OF assms(4), of now] thresholds_recorded_WPS [OF assms(4), of now]
  by blast

theorem selection_monotone_and_feedback_witness:
  "\<not> buttonLastPressed (power_on (replicate 4096 0)) \<and> selectionState (power_on (replicate 4096 0)) = 0
   \<and> buttonLastPressed ((power_on (replicate 4096 0))\<lparr>buttonLastPressed := True\<rparr>) \<and> buttonLastPressed ((power_on_WPS (replicate 4096 0))\<lparr>buttonLastPressed := True\<rparr>)
   \<and> feedback_requests (press_cycle 1000 [1100, 16000, 16100, 16200] 16300) (power_on (replicate 4096 0)) = 1
   \<and> feedback_requests (press_cycle 1000 [1100, 1200] 1300) (power_on (replicate 4096 0)) = 0
   \<and> selectionState (pressHandler False 20 ((power_on (replicate 4096 0))\<lparr>buttonLastPressed := True\<rparr>)) = 0
   \<and> TRIGGER_TIME_WPS \<le> selectionState (pressHandler_WPS True 3100 ((power_on_WPS (replicate 4096 0))\<lparr>buttonLastPressed := True\<rparr>))
   \<and> userActionFeedbackRequest
        (pressHandler_WPS True 3100 (((power_on_WPS (replicate 4096 0))\<lparr>buttonLastPressed := True\<rparr>)\<lparr>userActionFeedbackRequest := False\<rparr>))"
proof -
  have s: "\<not> buttonLastPressed (power_on (replicate 4096 0))" "selectionState (power_on (replicate 4096 0)) = 0"
    "buttonLastPressed ((power_on (replicate 4096 0))\<lparr>buttonLastPressed := True\<rparr>)" "buttonLastPressed ((power_on_WPS (replicate 4096 0))\<lparr>buttonLastPressed := True\<rparr>)"
    by (simp_all add: power_on_def power_on_WPS_def device.extend_def)
  have w: "timeSincebuttonPressed ((power_on_WPS (replicate 4096 0))\<lparr>buttonLastPressed := True\<rparr>) = 0" "selectionState ((power_on_WPS (replicate 4096 0))\<lparr>buttonLastPressed := True\<rparr>) = 0" "\<not> checkWiFiConfigured ((power_on_WPS (replicate 4096 0))\<lparr>buttonLastPressed := True\<rparr>)"
    by (simp_all add: power_on_def power_on_WPS_def device.extend_def checkWiFiConfigured_def
        EEPROM_read_def EEPROM_enabled_def)
  have t: "TRIGGER_TIME_WPS < 3100 - 0" "(0::ulong) < TRIGGER_TIME_WPS"
    by (simp_all add: TRIGGER_TIME_WPS_def)
  have e1: "\<exists>t \<in> set [1100, 16000, 16100, 16200::ulong]. TRIGGER_TIME_FACTORY_RESET < t - 1000"
    by (simp add: TRIGGER_TIME_FACTORY_RESET_def)
  have e2: "\<not> (\<exists>t \<in> set [1100, 1200::ulong]. TRIGGER_TIME_FACTORY_RESET < t - 1000)"
    by (simp add: TRIGGER_TIME_FACTORY_RESET_def)
  note a = selection_monotone_and_feedback [OF s, of _ 3100 1000 "[1100, 16000, 16100, 16200]" 16300]
  note b = selection_monotone_and_feedback [OF s, of _ 20 1000 "[1100, 1200]" 1300]
  have 1: "feedback_requests (press_cycle 1000 [1100, 16000, 16100, 16200] 16300) (power_on (replicate 4096 0)) = 1"
    using a e1 by presburger
  have 2: "feedback_requests (press_cycle 1000 [1100, 1200] 1300) (power_on (replicate 4096 0)) = 0"
    using b e2 by presburger
  have 3: "selectionState (pressHandler False 20 ((power_on (replicate 4096 0))\<lparr>buttonLastPressed := True\<rparr>)) = 0"
    using b by blast
  have 4: "TRIGGER_TIME_WPS \<le> selectionState (pressHandler_WPS True 3100 ((power_on_WPS (replicate 4096 0))\<lparr>buttonLastPressed := True\<rparr>))"
    using a t(1) w(1) by simp
  have 5: "userActionFeedbackRequest
        (pressHandler_WPS True 3100 (((power_on_WPS (replicate 4096 0))\<lparr>buttonLastPressed := True\<rparr>)\<lparr>userActionFeedbackRequest := False\<rparr>))"
    using a t w by simp
  show ?thesis using s 1 2 3 4 5 by simp
qed

text \<open>
  The WPS variant with WiFi configured, 3100 ms into a press: the 3000 ms threshold is
  passed for the first time and recorded, and no feedback is requested.
\<close>

theorem configured_wifi_no_feedback_counterexample:
  "selectionState (run_pressHandler_WPS [(True, 0)] ((power_on_WPS (replicate 4096 0))\<lparr>eeprom := (replicate 4096 0)[5 := 0xEB]\<rparr>)) < TRIGGER_TIME_WPS
   \<and> TRIGGER_TIME_WPS < 3100 - timeSincebuttonPressed (run_pressHandler_WPS [(True, 0)] ((power_on_WPS (replicate 4096 0))\<lparr>eeprom := (replicate 4096 0)[5 := 0xEB]\<rparr>))
   \<and> selectionState (run_pressHandler_WPS [(True, 0), (True, 3100)] ((power_on_WPS (replicate 4096 0))\<lparr>eeprom := (replicate 4096 0)[5 := 0xEB]\<rparr>)) = TRIGGER_TIME_WPS
   \<and> \<not> userActionFeedbackRequest (run_pressHandler_WPS [(True, 0), (True, 3100)] ((power_on_WPS (replicate 4096 0))\<lparr>eeprom := (replicate 4096 0)[5 := 0xEB]\<rparr>))"
proof -
  have c: "checkWiFiConfigured ((power_on_WPS (replicate 4096 0))\<lparr>eeprom := (replicate 4096 0)[5 := 0xEB]\<rparr>)"
    by (simp add: power_on_def power_on_WPS_def device.extend_def checkWiFiConfigured_def
        EEPROM_read_def EEPROM_enabled_def EEPROM_address_WPS_configured_def
        EEPROM_address_start_def EEPROM_address_CRC_def EEPROM_size_CRC_def)
  have s: "\<not> buttonLastPressed ((power_on_WPS (replicate 4096 0))\<lparr>eeprom := (replicate 4096 0)[5 := 0xEB]\<rparr>)" "selectionState ((power_on_WPS (replicate 4096 0))\<lparr>eeprom := (replicate 4096 0)[5 := 0xEB]\<rparr>) = 0" "\<not> userActionFeedbackRequest ((power_on_WPS (replicate 4096 0))\<lparr>eeprom := (replicate 4096 0)[5 := 0xEB]\<rparr>)"
    by (simp_all add: power_on_def power_on_WPS_def device.extend_def)
  let ?w1 = "((power_on_WPS (replicate 4096 0))\<lparr>eeprom := (replicate 4096 0)[5 := 0xEB]\<rparr>)\<lparr>timeSincebuttonPressed := 0, buttonLastPressed := True\<rparr>"
  have e: "run_pressHandler_WPS [(True, 0)] ((power_on_WPS (replicate 4096 0))\<lparr>eeprom := (replicate 4096 0)[5 := 0xEB]\<rparr>) = ?w1"
    using s(1) by (simp add: pressHandler_WPS_edge)
  have b: "buttonLastPressed ?w1" by simp
  have t: "(0::ulong) < TRIGGER_TIME_WPS" "TRIGGER_TIME_WPS < 3100 - 0"
    "\<not> TRIGGER_TIME_WIFI_DATA_RESET < 3100 - 0" "\<not> TRIGGER_TIME_FACTORY_RESET < 3100 - 0"
    by (simp_all add: TRIGGER_TIME_WPS_def TRIGGER_TIME_WIFI_DATA_RESET_def
        TRIGGER_TIME_FACTORY_RESET_def)
  have r: "run_pressHandler_WPS [(True, 0), (True, 3100)] ((power_on_WPS (replicate 4096 0))\<lparr>eeprom := (replicate 4096 0)[5 := 0xEB]\<rparr>) = pressHandler_WPS True 3100 ?w1"
    using s(1) by (simp add: pressHandler_WPS_edge)
  show ?thesis
    unfolding r e using t c s by (simp add: pressHandler_WPS_hold [OF b] Let_def)
qed

text \<open>
  C8. Whatever the button and the clock, a call of \<^verbatim>\<open>pressHandler\<close> leaves the RAM copy
  of the EEPROM, the flash sector, the MQTT configuration and the OTA password as they
  are and neither resets the WiFi settings nor restarts; on a release after more than
  15000 ms it sets \<open>factoryResetRequested\<close> (and clears \<open>selectionState\<close>), nothing else.
  \<^verbatim>\<open>loop\<close> performs the factory reset when it finds the flag set (unless a change of WiFi
  credentials, which restarts first, is pending), and in an iteration that finds the flag
  clear no factory reset happens, whatever request the web server handles. The factory
  reset is the only place that resets the WiFi settings, initialises the EEPROM and
  restarts.
\<close>

theorem factory_reset_deferred_to_loop:
  "(eeprom (pressHandler b now d) = eeprom d
    \<and> flash (pressHandler b now d) = flash d
    \<and> mqttServer (pressHandler b now d) = mqttServer d
    \<and> stateMQTTConfigured (pressHandler b now d) = stateMQTTConfigured d
    \<and> arduinoOtaPassword (pressHandler b now d) = arduinoOtaPassword d
    \<and> restarted (pressHandler b now d) = restarted d
    \<and> (\<exists>xs. effects (pressHandler b now d) = effects d @ xs
             \<and> WiFiManager_resetSettings \<notin> set xs \<and> ESP_restart \<notin> set xs))
   \<and> (buttonLastPressed d \<and> TRIGGER_TIME_FACTORY_RESET < now - timeSincebuttonPressed d \<longrightarrow>
        pressHandler False now d
          = d\<lparr>factoryResetRequested := True, selectionState := 0, buttonLastPressed := False\<rparr>)
   \<and> (factoryResetRequested d \<and> \<not> wifiCredentialChangeRequested d \<longrightarrow>
        loop inp d = performFactoryReset (in_chip inp) (in_beyond inp)
                       (if userActionFeedbackRequest d then feedbackQuickBlink d else d))
   \<and> (\<not> factoryResetRequested d \<longrightarrow>
        (\<exists>xs. effects (loop inp d) = effects d @ xs \<and> WiFiManager_resetSettings \<notin> set xs))
   \<and> effects (performFactoryReset chip beyond d)
        = effects d @ [WiFiManager_resetSettings, Delay 1000, ESP_restart]
   \<and> eeprom (performFactoryReset chip beyond d)
        = eeprom (initEEPROM chip beyond (d\<lparr>mqttServer := [], stateMQTTConfigured := False\<rparr>))
   \<and> restarted (performFactoryReset chip beyond d)"
proof -
  have "eeprom (performFactoryReset chip beyond d)
        = eeprom (initEEPROM chip beyond (d\<lparr>mqttServer := [], stateMQTTConfigured := False\<rparr>))"
    by (simp add: performFactoryReset_def reboot_def emit_def initEEPROM_def
        saveOtaPasswordToEEPROM_def EEPROM_commit_def)
  moreover have "restarted (performFactoryReset chip beyond d)"
    by (simp add: performFactoryReset_def reboot_def)
  ultimately show ?thesis
    using pressHandler_store_untouched [of b now d] pressHandler_release [of d now]
      loop_performs_reset [of d inp] loop_no_reset [of d inp]
      effects_performFactoryReset [of chip beyond d]
    by simp
qed

theorem factory_reset_deferred_to_loop_witness:
  "buttonLastPressed ((power_on (replicate 4096 0))\<lparr>buttonLastPressed := True\<rparr>) \<and> TRIGGER_TIME_FACTORY_RESET < 16000 - timeSincebuttonPressed ((power_on (replicate 4096 0))\<lparr>buttonLastPressed := True\<rparr>)
   \<and> factoryResetRequested (pressHandler False 16000 ((power_on (replicate 4096 0))\<lparr>buttonLastPressed := True\<rparr>))
   \<and> \<not> wifiCredentialChangeRequested (pressHandler False 16000 ((power_on (replicate 4096 0))\<lparr>buttonLastPressed := True\<rparr>))
   \<and> effects (pressHandler False 16000 ((power_on (replicate 4096 0))\<lparr>buttonLastPressed := True\<rparr>)) = []
   \<and> effects (loop \<lparr>in_wifiConnected = True, in_request = None, in_mqttConnectOk = False, in_mqttMessage = None, in_chip = ''1265369'', in_mac = ''5C:CF:7F:13:4E:D9'', in_beyond = (\<lambda>i. 0)\<rparr> (pressHandler False 16000 ((power_on (replicate 4096 0))\<lparr>buttonLastPressed := True\<rparr>)))
       = [WiFiManager_resetSettings, Delay 1000, ESP_restart]
   \<and> \<not> factoryResetRequested (power_on (replicate 4096 0))
   \<and> WiFiManager_resetSettings \<notin> set (effects (loop \<lparr>in_wifiConnected = True, in_request = None, in_mqttConnectOk = False, in_mqttMessage = None, in_chip = ''1265369'', in_mac = ''5C:CF:7F:13:4E:D9'', in_beyond = (\<lambda>i. 0)\<rparr> (power_on (replicate 4096 0))))"
proof -
  have s: "buttonLastPressed ((power_on (replicate 4096 0))\<lparr>buttonLastPressed := True\<rparr>)" "TRIGGER_TIME_FACTORY_RESET < 16000 - timeSincebuttonPressed ((power_on (replicate 4096 0))\<lparr>buttonLastPressed := True\<rparr>)"
    "\<not> factoryResetRequested (power_on (replicate 4096 0))" "effects (power_on (replicate 4096 0)) = []"
    by (simp_all add: power_on_def TRIGGER_TIME_FACTORY_RESET_def)
  note a = factory_reset_deferred_to_loop [of False 16000 "((power_on (replicate 4096 0))\<lparr>buttonLastPressed := True\<rparr>)" "\<lparr>in_wifiConnected = True, in_request = None, in_mqttConnectOk = False, in_mqttMessage = None, in_chip = ''1265369'', in_mac = ''5C:CF:7F:13:4E:D9'', in_beyond = (\<lambda>i. 0)\<rparr>"]
  note c = factory_reset_deferred_to_loop [of False 16000 "(power_on (replicate 4096 0))" "\<lparr>in_wifiConnected = True, in_request = None, in_mqttConnectOk = False, in_mqttMessage = None, in_chip = ''1265369'', in_mac = ''5C:CF:7F:13:4E:D9'', in_beyond = (\<lambda>i. 0)\<rparr>"]
  have p: "pressHandler False 16000 ((power_on (replicate 4096 0))\<lparr>buttonLastPressed := True\<rparr>)
          = ((power_on (replicate 4096 0))\<lparr>buttonLastPressed := True\<rparr>)\<lparr>factoryResetRequested := True, selectionState := 0, buttonLastPressed := False\<rparr>"
    using a s(1,2) by blast
  have 1: "factoryResetRequested (pressHandler False 16000 ((power_on (replicate 4096 0))\<lparr>buttonLastPressed := True\<rparr>))"
    "\<not> wifiCredentialChangeRequested (pressHandler False 16000 ((power_on (replicate 4096 0))\<lparr>buttonLastPressed := True\<rparr>))"
    "effects (pressHandler False 16000 ((power_on (replicate 4096 0))\<lparr>buttonLastPressed := True\<rparr>)) = []"
    "\<not> userActionFeedbackRequest (pressHandler False 16000 ((power_on (replicate 4096 0))\<lparr>buttonLastPressed := True\<rparr>))"
    unfolding p by (simp_all add: power_on_def)
  note e = factory_reset_deferred_to_loop [of False 16000 "pressHandler False 16000 ((power_on (replicate 4096 0))\<lparr>buttonLastPressed := True\<rparr>)" "\<lparr>in_wifiConnected = True, in_request = None, in_mqttConnectOk = False, in_mqttMessage = None, in_chip = ''1265369'', in_mac = ''5C:CF:7F:13:4E:D9'', in_beyond = (\<lambda>i. 0)\<rparr>"
      "''1265369''" "\<lambda>i. 0"]
  have l: "loop \<lparr>in_wifiConnected = True, in_request = None, in_mqttConnectOk = False, in_mqttMessage = None, in_chip = ''1265369'', in_mac = ''5C:CF:7F:13:4E:D9'', in_beyond = (\<lambda>i. 0)\<rparr> (pressHandler False 16000 ((power_on (replicate 4096 0))\<lparr>buttonLastPressed := True\<rparr>))
          = performFactoryReset ''1265369'' (\<lambda>i. 0) (pressHandler False 16000 ((power_on (replicate 4096 0))\<lparr>buttonLastPressed := True\<rparr>))"
    using e 1 by simp
  have 2: "effects (loop \<lparr>in_wifiConnected = True, in_request = None, in_mqttConnectOk = False, in_mqttMessage = None, in_chip = ''1265369'', in_mac = ''5C:CF:7F:13:4E:D9'', in_beyond = (\<lambda>i. 0)\<rparr> (pressHandler False 16000 ((power_on (replicate 4096 0))\<lparr>buttonLastPressed := True\<rparr>)))
       = [WiFiManager_resetSettings, Delay 1000, ESP_restart]"
    unfolding l using e 1(3) by simp
  have "\<exists>xs. effects (loop \<lparr>in_wifiConnected = True, in_request = None, in_mqttConnectOk = False, in_mqttMessage = None, in_chip = ''1265369'', in_mac = ''5C:CF:7F:13:4E:D9'', in_beyond = (\<lambda>i. 0)\<rparr> (power_on (replicate 4096 0))) = effects (power_on (replicate 4096 0)) @ xs \<and> WiFiManager_resetSettings \<notin> set xs"
    using c s(3) by blast
  then have 3: "WiFiManager_resetSettings \<notin> set (effects (loop \<lparr>in_wifiConnected = True, in_request = None, in_mqttConnectOk = False, in_mqttMessage = None, in_chip = ''1265369'', in_mac = ''5C:CF:7F:13:4E:D9'', in_beyond = (\<lambda>i. 0)\<rparr> (power_on (replicate 4096 0))))"
    using s(4) by auto
  show ?thesis using s 1 2 3 by simp
qed

section \<open>The checksum\<close>

subsection \<open>The table of sixteen entries and the bitwise CRC-32 step\<close>

text \<open>
  One lookup in the table with the low nibble, XORed with the register shifted by four,
  is four steps of the bitwise algorithm; the two lookups of the loop body are eight, so
  one pass through the body is the standard update for the byte, followed by the
  complement that the sketch takes inside the loop.
\<close>

lemma crc32_bit_eq: "crc32_bit c = drop_bit 1 c XOR poly_if (bit c 0)"
  by (simp add: crc32_bit_def poly_if_def)

lemma poly_low_bits:
  "\<not> bit (poly_if b) 0" "\<not> bit (poly_if b) (Suc 0)" "\<not> bit (poly_if b) 2" "\<not> bit (poly_if b) 3"
  by (simp_all add: poly_if_def)

lemma crc32_bit_shifted:
  "crc32_bit (drop_bit k x XOR r)
     = drop_bit (Suc k) x XOR (drop_bit 1 r XOR poly_if (bit x k \<noteq> bit r 0))"
proof -
  have "bit (drop_bit k x XOR r) 0 \<longleftrightarrow> (bit x k \<noteq> bit r 0)"
    by (simp add: bit_xor_iff bit_drop_bit_eq)
  then show ?thesis
    by (simp only: crc32_bit_eq drop_bit_xor drop_bit_drop_bit xor.assoc) simp
qed


lemma four_bit_steps:
  "(crc32_bit ^^ 4) x
     = drop_bit 4 x XOR
         (drop_bit 3 (poly_if (bit x 0)) XOR (drop_bit 2 (poly_if (bit x 1))
            XOR (drop_bit 1 (poly_if (bit x 2)) XOR poly_if (bit x 3))))"
proof -
  let ?p0 = "poly_if (bit x 0)" and ?p1 = "poly_if (bit x 1)"
  and ?p2 = "poly_if (bit x 2)" and ?p3 = "poly_if (bit x 3)"
  have s1: "crc32_bit x = drop_bit 1 x XOR ?p0"
    by (rule crc32_bit_eq)
  have s2: "crc32_bit (drop_bit 1 x XOR ?p0) = drop_bit 2 x XOR (drop_bit 1 ?p0 XOR ?p1)"
    using crc32_bit_shifted [of 1 x ?p0] poly_low_bits(1) [of "bit x 0"]
    by (simp add: numeral_2_eq_2)
  have b2: "\<not> bit (drop_bit 1 ?p0 XOR ?p1) 0"
    using poly_low_bits(2) [of "bit x 0"] poly_low_bits(1) [of "bit x 1"]
    by (simp add: bit_xor_iff bit_drop_bit_eq)
  have s3: "crc32_bit (drop_bit 2 x XOR (drop_bit 1 ?p0 XOR ?p1))
              = drop_bit 3 x XOR (drop_bit 2 ?p0 XOR (drop_bit 1 ?p1 XOR ?p2))"
    using crc32_bit_shifted [of 2 x "drop_bit 1 ?p0 XOR ?p1"] b2
    by (simp add: numeral_3_eq_3 numeral_2_eq_2 xor.assoc)
  have b3: "\<not> bit (drop_bit 2 ?p0 XOR (drop_bit 1 ?p1 XOR ?p2)) 0"
    using poly_low_bits(3) [of "bit x 0"] poly_low_bits(2) [of "bit x 1"]
      poly_low_bits(1) [of "bit x 2"]
    by (simp add: bit_xor_iff bit_drop_bit_eq)
  have s4: "crc32_bit (drop_bit 3 x XOR (drop_bit 2 ?p0 XOR (drop_bit 1 ?p1 XOR ?p2)))
              = drop_bit 4 x XOR (drop_bit 3 ?p0 XOR (drop_bit 2 ?p1 XOR (drop_bit 1 ?p2 XOR ?p3)))"
    using crc32_bit_shifted [of 3 x "drop_bit 2 ?p0 XOR (drop_bit 1 ?p1 XOR ?p2)"] b3
    by (simp add: xor.assoc eval_nat_numeral)
  have "(crc32_bit ^^ 4) x = crc32_bit (crc32_bit (crc32_bit (crc32_bit x)))"
    by (simp add: eval_nat_numeral)
  then show ?thesis
    by (simp only: s1 s2 s3 s4)
qed


lemma low_nibble_bits:
  fixes x :: ulong
  shows "x AND 0xf = of_bool (bit x 0) + 2 * of_bool (bit x 1)
                      + 4 * of_bool (bit x 2) + 8 * of_bool (bit x 3)"
proof -
  have "x AND 0xf = take_bit 4 x"
    by (simp add: take_bit_eq_mask mask_numeral)
  also have "\<dots> = of_bool (bit x 0) + 2 * of_bool (bit x 1)
                      + 4 * of_bool (bit x 2) + 8 * of_bool (bit x 3)"
    by (simp add: eval_nat_numeral take_bit_Suc bit_Suc bit_0 mod_2_eq_odd algebra_simps)
  finally show ?thesis .
qed


lemma table_entry:
  fixes x :: ulong
  shows "crc_table ! unat (x AND 0xf)
     = drop_bit 3 (poly_if (bit x 0)) XOR (drop_bit 2 (poly_if (bit x 1))
            XOR (drop_bit 1 (poly_if (bit x 2)) XOR poly_if (bit x 3)))"
  unfolding low_nibble_bits
  by (cases "bit x 0"; cases "bit x 1"; cases "bit x 2"; cases "bit x 3")
    (simp_all add: poly_if_def crc_table_def)

lemma nibble_step_is_four_bit_steps:
  fixes x :: ulong
  shows "crc_table ! unat (x AND 0xf) XOR drop_bit 4 x = (crc32_bit ^^ 4) x"
  by (simp only: table_entry four_bit_steps xor.commute)


lemma xor_cancel_mid:
  fixes a d u :: ulong
  shows "(a XOR d) XOR (d XOR u) = a XOR u"
  by (rule bit_eqI) (auto simp add: bit_xor_iff)

lemma xor_cancel_right:
  fixes a d :: ulong
  shows "(a XOR d) XOR d = a"
  by (rule bit_eqI) (auto simp add: bit_xor_iff)

lemma table_lookup_eq:
  fixes x :: ulong
  shows "crc_table ! unat (x AND 0xf) = (crc32_bit ^^ 4) x XOR drop_bit 4 x"
proof -
  have "(crc32_bit ^^ 4) x XOR drop_bit 4 x
          = (crc_table ! unat (x AND 0xf) XOR drop_bit 4 x) XOR (drop_bit 4 x XOR 0)"
    by (simp only: nibble_step_is_four_bit_steps xor.right_neutral)
  also have "\<dots> = crc_table ! unat (x AND 0xf) XOR 0"
    by (rule xor_cancel_mid)
  finally show ?thesis by simp
qed

lemma ucast_high_nibble:
  fixes b :: byte
  shows "(ucast (drop_bit 4 b) :: ulong) = drop_bit 4 (ucast b)"
  by (rule bit_word_eqI) (auto simp add: bit_ucast_iff bit_drop_bit_eq dest: bit_imp_le_length)

lemma drop_bit_8_ucast_byte:
  fixes b :: byte
  shows "drop_bit 8 (ucast b :: ulong) = 0"
  by (rule bit_word_eqI) (auto simp add: bit_ucast_iff bit_drop_bit_eq dest: bit_imp_le_length)

lemma crc_byte_eq: "crc_byte b c = NOT (crc32_update b c)"
proof -
  define x where "x = c XOR ucast b"
  define F where "F = crc32_bit ^^ 4"
  define crc1 where "crc1 = crc_table ! unat (x AND 0x0f) XOR drop_bit 4 c"
  define u :: ulong where "u = ucast b"
  have tl: "crc_table ! unat (y AND 0xf) = F y XOR drop_bit 4 y" for y
    unfolding F_def by (rule table_lookup_eq)
  have dx: "drop_bit 4 x XOR drop_bit 4 u = drop_bit 4 c"
    unfolding x_def u_def by (rule bit_eqI) (auto simp add: bit_xor_iff bit_drop_bit_eq)
  have c1: "crc1 = F x XOR drop_bit 4 u"
  proof -
    have "crc1 = (F x XOR drop_bit 4 x) XOR (drop_bit 4 x XOR drop_bit 4 u)"
      unfolding crc1_def tl dx ..
    then show ?thesis by (simp only: xor_cancel_mid)
  qed
  have x1: "crc1 XOR ucast (drop_bit 4 b) = F x"
    unfolding c1 ucast_high_nibble u_def
    by (rule bit_eqI) (auto simp add: bit_xor_iff)
  have d1: "drop_bit 4 crc1 = drop_bit 4 (F x)"
    unfolding c1 u_def
    by (simp only: drop_bit_xor drop_bit_drop_bit) (simp add: drop_bit_8_ucast_byte)
  have c2: "crc_table ! unat ((crc1 XOR ucast (drop_bit 4 b)) AND 0x0f) XOR drop_bit 4 crc1
              = F (F x)"
  proof -
    have "crc_table ! unat ((crc1 XOR ucast (drop_bit 4 b)) AND 0x0f) XOR drop_bit 4 crc1
            = (F (F x) XOR drop_bit 4 (F x)) XOR drop_bit 4 (F x)"
      unfolding x1 tl d1 ..
    then show ?thesis by (simp only: xor_cancel_right)
  qed
  have "F (F x) = (crc32_bit ^^ 8) x"
    unfolding F_def by (simp add: eval_nat_numeral)
  then have "crc32_update b c = F (F x)"
    by (simp add: crc32_update_def x_def)
  moreover have "crc_byte b c
      = NOT (crc_table ! unat ((crc1 XOR ucast (drop_bit 4 b)) AND 0x0f) XOR drop_bit 4 crc1)"
    by (simp add: crc_byte_def Let_def crc1_def x_def)
  ultimately show ?thesis by (simp only: c2)
qed

subsection \<open>The checksum of a store of zeros\<close>

text \<open>
  On natural numbers the steps are evaluated by rewriting of binary numerals, which is
  what makes the checksum of a whole store of 4096 bytes a matter of seconds.
\<close>

lemma unat_crc32_bit: "unat (crc32_bit c) = crc32_bit_nat (unat c)"
proof -
  have o: "bit c 0 \<longleftrightarrow> odd (unat c)"
  proof -
    have "bit (unat c) 0 \<longleftrightarrow> bit c 0"
      by (simp only: bit_unsigned_iff) simp
    then show ?thesis by (simp add: bit_0)
  qed
  have d: "unat (drop_bit 1 c) = unat c div 2"
    by (simp only: unat_drop_bit_eq) (simp add: drop_bit_eq_div)
  show ?thesis
    unfolding crc32_bit_def crc32_bit_nat_def o
    by (simp only: unsigned_xor_eq d if_distrib [of unat]) simp
qed

lemma unat_NOT_ulong: "unat (NOT c :: ulong) = unat c XOR 0xFFFFFFFF"
proof -
  have "(0xFFFFFFFF :: ulong) = - 1" by simp
  then have "NOT c = c XOR 0xFFFFFFFF" by (simp only: bit.xor_one_right)
  then show ?thesis by (simp add: unsigned_xor_eq)
qed


lemma unat_funpow:
  fixes f :: "ulong \<Rightarrow> ulong"
  assumes "\<And>c. unat (f c) = g (unat c)"
  shows "unat ((f ^^ n) c) = (g ^^ n) (unat c)"
  by (induction n) (simp_all add: assms)

lemma unat_eight_bit_steps: "unat ((crc32_bit ^^ 8) c) = zero_byte_nat (unat c)"
  by (simp add: eval_nat_numeral zero_byte_nat_def unat_crc32_bit)

lemma crc32_bit_nat_0: "crc32_bit_nat 0 = 0"
  by (simp add: crc32_bit_nat_def)

lemma crc32_bit_nat_1: "crc32_bit_nat 1 = 0xEDB88320"
  by (simp add: crc32_bit_nat_def)

lemma crc32_bit_nat_Bit0: "crc32_bit_nat (numeral (Num.Bit0 k)) = numeral k"
  by (simp add: crc32_bit_nat_def)

lemma crc32_bit_nat_Bit1: "crc32_bit_nat (numeral (Num.Bit1 k)) = numeral k XOR 0xEDB88320"
  unfolding crc32_bit_nat_def by (simp only: odd_numeral if_True numeral_Bit1_div_2 simp_thms)

lemma funpow_Bit0:
  fixes f :: "'a \<Rightarrow> 'a"
  shows "(f ^^ numeral (Num.Bit0 n)) x = (f ^^ numeral n) ((f ^^ numeral n) x)"
  by (metis funpow_add comp_apply numeral_Bit0)

lemma funpow_Bit1:
  fixes f :: "'a \<Rightarrow> 'a"
  shows "(f ^^ numeral (Num.Bit1 n)) x = f ((f ^^ numeral n) ((f ^^ numeral n) x))"
  by (metis funpow_add comp_apply numeral_Bit1 funpow.simps(2) Suc_eq_plus1)

lemma funpow_One:
  fixes f :: "'a \<Rightarrow> 'a"
  shows "(f ^^ numeral Num.One) x = f x"
  by simp

lemma xor_nat_0_left: "(0::nat) XOR y = y"
  by simp

lemma xor_nat_0_right: "(y::nat) XOR 0 = y"
  by simp

lemma xor_nat_1_left:
  "(1::nat) XOR numeral n = (case xor_num num.One n of None \<Rightarrow> 0 | Some n' \<Rightarrow> numeral n')"
  using numeral_xor_num [of num.One n, where ?'a = nat] by (simp only: numeral_One)

lemma xor_nat_1_right:
  "numeral n XOR (1::nat) = (case xor_num n num.One of None \<Rightarrow> 0 | Some n' \<Rightarrow> numeral n')"
  using numeral_xor_num [of n num.One, where ?'a = nat] by (simp only: numeral_One)

lemmas crc_nat_eval =
  funpow_Bit0 funpow_Bit1 funpow_One zero_byte_nat_def zero_byte_complemented_nat_def
  crc32_bit_nat_0 crc32_bit_nat_1 crc32_bit_nat_Bit0 crc32_bit_nat_Bit1
  xor_nat_0_left xor_nat_0_right xor_nat_1_left xor_nat_1_right
  numeral_xor_num [where ?'a = nat] xor_num.simps option.case option.map

lemma zero_bytes_complemented_nat:
  "(zero_byte_complemented_nat ^^ 4091) 0xFFFFFFFF = 1030648314"
  by (simp only: crc_nat_eval)

lemma zero_bytes_nat:
  "(zero_byte_nat ^^ 4091) 0xFFFFFFFF = 2065683270"
  by (simp only: crc_nat_eval)

lemma unat_crc_byte_zero: "unat (crc_byte 0 c) = zero_byte_complemented_nat (unat c)"
  by (simp add: crc_byte_eq crc32_update_def unat_NOT_ulong unat_eight_bit_steps
      zero_byte_complemented_nat_def)

lemma unat_crc32_update_zero: "unat (crc32_update 0 c) = zero_byte_nat (unat c)"
  by (simp add: crc32_update_def unat_eight_bit_steps)

lemma drop_zero_store:
  "drop EEPROM_address_start (replicate EEPROM_length 0) = replicate 4091 (0::byte)"
  by (simp add: EEPROM_address_start_def EEPROM_address_CRC_def EEPROM_size_CRC_def
      EEPROM_length_def)

lemma unat_all_ones: "unat (- 1 :: ulong) = 0xFFFFFFFF"
  by (simp add: unsigned_minus_1_eq_mask mask_eq_exp_minus_1)

lemma calculate_crc_zero_store: "calculate_crc (replicate EEPROM_length 0) = 0x3D6E71FA"
proof -
  have "unat (calculate_crc (replicate EEPROM_length 0))
          = (zero_byte_complemented_nat ^^ 4091) 0xFFFFFFFF"
    by (simp only: calculate_crc_fold drop_zero_store fold_replicate
        unat_funpow [where f = "crc_byte 0", OF unat_crc_byte_zero] unat_all_ones)
  then have "unat (calculate_crc (replicate EEPROM_length 0)) = 1030648314"
    by (simp only: zero_bytes_complemented_nat)
  then have "of_nat (unat (calculate_crc (replicate EEPROM_length 0))) = (of_nat 1030648314 :: ulong)"
    by (rule arg_cong)
  then show ?thesis by simp
qed

lemma crc32_reference_zero_store:
  "crc32_reference (drop EEPROM_address_start (replicate EEPROM_length 0)) = 0x84E02CB9"
proof -
  have "unat (fold crc32_update (replicate 4091 0) (- 1))
          = (zero_byte_nat ^^ 4091) 0xFFFFFFFF"
    by (simp only: fold_replicate
        unat_funpow [where f = "crc32_update 0", OF unat_crc32_update_zero] unat_all_ones)
  then have "unat (fold crc32_update (replicate 4091 0) (- 1)) = 2065683270"
    by (simp only: zero_bytes_nat)
  then have "of_nat (unat (fold crc32_update (replicate 4091 0) (- 1)))
               = (of_nat 2065683270 :: ulong)"
    by (rule arg_cong)
  then have "fold crc32_update (replicate 4091 0) (NOT 0) = (2065683270 :: ulong)"
    by simp
  then have "crc32_reference (drop EEPROM_address_start (replicate EEPROM_length 0))
               = NOT 2065683270"
    by (simp only: crc32_reference_def drop_zero_store)
  then show ?thesis by simp
qed

text \<open>
  C4. For every store content, \<^verbatim>\<open>calculate_crc\<close> goes through the bytes from offset 5
  to the end of the region, starting from \<open>0xFFFFFFFF\<close>, and for each byte does the update
  of the standard reflected CRC-32 with polynomial \<open>0xEDB88320\<close> (its two lookups in the
  table of sixteen entries are the eight bitwise steps) and then complements the register:
  the complement is taken after every byte, inside the loop, and not once at the end.
\<close>

theorem calculate_crc_complements_after_each_byte:
  "calculate_crc e
     = fold (\<lambda>b c. NOT (crc32_update b c)) (drop EEPROM_address_start e) (NOT 0)"
proof -
  have "crc_byte = (\<lambda>b c. NOT (crc32_update b c))"
    by (intro ext) (rule crc_byte_eq)
  then show ?thesis
    by (simp add: calculate_crc_fold)
qed

text \<open>
  The checksum is therefore not the reference CRC-32 of those bytes. For the store of
  4096 zero bytes \<^verbatim>\<open>calculate_crc\<close> gives \<open>0x3D6E71FA\<close>, the CRC-32 of the 4091 zero
  bytes from offset 5 on is \<open>0x84E02CB9\<close>.
\<close>

theorem zero_store_checksum_counterexample:
  "calculate_crc (replicate EEPROM_length 0) = 0x3D6E71FA
   \<and> crc32_reference (drop EEPROM_address_start (replicate EEPROM_length 0)) = 0x84E02CB9
   \<and> calculate_crc (replicate EEPROM_length 0)
       \<noteq> crc32_reference (drop EEPROM_address_start (replicate EEPROM_length 0))"
  by (simp only: calculate_crc_zero_store crc32_reference_zero_store) simp

subsection \<open>The checksum detects a changed byte\<close>

text \<open>
  The bit step is injective: the top bit of its result tells whether the polynomial was
  XORed in. So is the pass through the loop body, in the register for a given byte and in
  the byte for a given register, and with it the whole loop.
\<close>

lemma xor_right_cancel_ulong:
  fixes a b p :: ulong
  assumes "a XOR p = b XOR p"
  shows "a = b"
proof -
  have "(a XOR p) XOR p = (b XOR p) XOR p" using assms by simp
  then show ?thesis by (simp only: xor.assoc xor_self_eq xor.right_neutral)
qed

lemma bit_crc32_bit_31: "bit (crc32_bit z) 31 \<longleftrightarrow> bit z 0"
proof -
  have "\<not> bit (drop_bit 1 z) 31"
    by (auto simp add: bit_drop_bit_eq dest: bit_imp_le_length)
  moreover have "bit (poly_if b) 31 \<longleftrightarrow> b" for b
    by (simp add: poly_if_def)
  ultimately show ?thesis
    by (simp add: crc32_bit_eq bit_xor_iff)
qed

lemma crc32_bit_inj:
  assumes "crc32_bit x = crc32_bit y"
  shows "x = y"
proof -
  have b0: "bit x 0 \<longleftrightarrow> bit y 0"
    using assms bit_crc32_bit_31 [of x] bit_crc32_bit_31 [of y] by simp
  have "drop_bit 1 x XOR poly_if (bit x 0) = drop_bit 1 y XOR poly_if (bit x 0)"
    using assms b0 by (simp add: crc32_bit_eq)
  then have d: "drop_bit 1 x = drop_bit 1 y"
    by (rule xor_right_cancel_ulong)
  show ?thesis
  proof (rule bit_eqI)
    fix n
    show "bit x n \<longleftrightarrow> bit y n"
    proof (cases n)
      case 0
      then show ?thesis using b0 by simp
    next
      case (Suc m)
      have "bit x (Suc m) \<longleftrightarrow> bit (drop_bit 1 x) m"
        by (simp add: bit_drop_bit_eq)
      also have "\<dots> \<longleftrightarrow> bit (drop_bit 1 y) m"
        by (simp only: d)
      also have "\<dots> \<longleftrightarrow> bit y (Suc m)"
        by (simp add: bit_drop_bit_eq)
      finally show ?thesis using Suc by simp
    qed
  qed
qed

lemma inj_crc32_bit_steps: "inj (crc32_bit ^^ n)"
  by (rule inj_fn) (rule injI, rule crc32_bit_inj)

lemma ucast_byte_inj:
  fixes b b' :: byte
  assumes "(ucast b :: ulong) = ucast b'"
  shows "b = b'"
proof (rule bit_word_eqI)
  fix n assume "n < LENGTH(8)"
  then have "bit b n \<longleftrightarrow> bit (ucast b :: ulong) n"
    by (simp add: bit_ucast_iff)
  also have "\<dots> \<longleftrightarrow> bit (ucast b' :: ulong) n"
    by (simp only: assms)
  also have "\<dots> \<longleftrightarrow> bit b' n"
    using \<open>n < LENGTH(8)\<close> by (simp add: bit_ucast_iff)
  finally show "bit b n \<longleftrightarrow> bit b' n" .
qed

lemma crc32_update_inj_state:
  assumes "crc32_update b c = crc32_update b c'"
  shows "c = c'"
proof -
  have "c XOR ucast b = c' XOR ucast b"
    using assms inj_crc32_bit_steps [of 8] by (simp add: crc32_update_def inj_def)
  then show ?thesis by (rule xor_right_cancel_ulong)
qed

lemma crc32_update_inj_byte:
  assumes "crc32_update b c = crc32_update b' c"
  shows "b = b'"
proof -
  have "c XOR ucast b = c XOR ucast b'"
    using assms inj_crc32_bit_steps [of 8] by (simp add: crc32_update_def inj_def)
  then have "ucast b XOR c = ucast b' XOR c"
    by (simp only: xor.commute)
  then have "(ucast b :: ulong) = ucast b'"
    by (rule xor_right_cancel_ulong)
  then show ?thesis by (rule ucast_byte_inj)
qed

lemma crc_byte_inj_state:
  assumes "crc_byte b c = crc_byte b c'"
  shows "c = c'"
  using assms by (simp add: crc_byte_eq) (rule crc32_update_inj_state)

lemma crc_byte_inj_byte:
  assumes "crc_byte b c = crc_byte b' c"
  shows "b = b'"
  using assms by (simp add: crc_byte_eq) (rule crc32_update_inj_byte)

lemma fold_crc_byte_inj:
  "fold crc_byte xs c = fold crc_byte xs c' \<Longrightarrow> c = c'"
proof (induction xs arbitrary: c c')
  case Nil
  then show ?case by simp
next
  case (Cons x xs)
  from Cons.prems have "fold crc_byte xs (crc_byte x c) = fold crc_byte xs (crc_byte x c')"
    by simp
  then have "crc_byte x c = crc_byte x c'" by (rule Cons.IH)
  then show ?case by (rule crc_byte_inj_state)
qed

lemma fold_crc_byte_update:
  assumes "j < length xs" and "v \<noteq> xs ! j"
  shows "fold crc_byte (xs[j := v]) c \<noteq> fold crc_byte xs c"
proof
  assume eq: "fold crc_byte (xs[j := v]) c = fold crc_byte xs c"
  define c0 where "c0 = fold crc_byte (take j xs) c"
  have l: "fold crc_byte (xs[j := v]) c = fold crc_byte (drop (Suc j) xs) (crc_byte v c0)"
    using assms(1) by (simp add: upd_conv_take_nth_drop c0_def)
  have "fold crc_byte xs c = fold crc_byte (take j xs @ xs ! j # drop (Suc j) xs) c"
    by (simp only: id_take_nth_drop [OF assms(1), symmetric])
  then have r: "fold crc_byte xs c = fold crc_byte (drop (Suc j) xs) (crc_byte (xs ! j) c0)"
    by (simp add: c0_def)
  have "fold crc_byte (drop (Suc j) xs) (crc_byte v c0)
          = fold crc_byte (drop (Suc j) xs) (crc_byte (xs ! j) c0)"
    using eq by (simp only: l r)
  then have "crc_byte v c0 = crc_byte (xs ! j) c0" by (rule fold_crc_byte_inj)
  then have "v = xs ! j" by (rule crc_byte_inj_byte)
  with assms(2) show False by simp
qed

lemma calculate_crc_data_byte_changed:
  assumes "EEPROM_address_start \<le> i" and "i < length e" and "v \<noteq> e ! i"
  shows "calculate_crc (e[i := v]) \<noteq> calculate_crc e"
proof -
  have "drop EEPROM_address_start (e[i := v])
          = (drop EEPROM_address_start e)[i - EEPROM_address_start := v]"
    using assms(1) by (simp add: drop_update_swap)
  moreover have "i - EEPROM_address_start < length (drop EEPROM_address_start e)"
    using assms(1,2) by simp
  moreover have "v \<noteq> drop EEPROM_address_start e ! (i - EEPROM_address_start)"
    using assms by simp
  ultimately show ?thesis
    by (simp only: calculate_crc_fold fold_crc_byte_update not_False_eq_True)
qed

lemma retrieveCRC_update_outside:
  assumes "i < EEPROM_address_CRC \<or> EEPROM_address_CRC + EEPROM_size_CRC \<le> i"
  shows "retrieveCRC (e[i := v]) = retrieveCRC e"
proof -
  have "EEPROM_read (e[i := v]) (EEPROM_address_CRC + j) = EEPROM_read e (EEPROM_address_CRC + j)"
    if "j < EEPROM_size_CRC" for j
    using assms that by (auto simp add: EEPROM_read_def)
  then have "read_loop (e[i := v]) EEPROM_address_CRC EEPROM_size_CRC 0
               = read_loop e EEPROM_address_CRC EEPROM_size_CRC 0"
    by (simp add: read_loop_eq)
  then show ?thesis by (simp add: retrieveCRC_def)
qed

lemma checkCRC_data_byte_changed:
  assumes "checkCRC e" and "EEPROM_address_start \<le> i" and "i < length e" and "v \<noteq> e ! i"
  shows "\<not> checkCRC (e[i := v])"
proof -
  have "retrieveCRC (e[i := v]) = retrieveCRC e"
    using assms(2) by (intro retrieveCRC_update_outside) (simp add: EEPROM_address_start_def)
  moreover have "calculate_crc (e[i := v]) \<noteq> calculate_crc e"
    using assms(2-4) by (rule calculate_crc_data_byte_changed)
  ultimately show ?thesis
    using assms(1) by (simp add: checkCRC_def)
qed

lemma checkEEPROMVersionNumber_changed:
  assumes "checkEEPROMVersionNumber e"
    and "EEPROM_version_number_address < length e"
    and "v \<noteq> e ! EEPROM_version_number_address"
  shows "\<not> checkEEPROMVersionNumber (e[EEPROM_version_number_address := v])"
  using assms by (simp add: checkEEPROMVersionNumber_def EEPROM_read_def)

lemma outside_checksum_cases:
  assumes "i < EEPROM_address_CRC \<or> EEPROM_address_CRC + EEPROM_size_CRC \<le> i"
  shows "i = EEPROM_version_number_address \<or> EEPROM_address_start \<le> i"
  using assms
  by (auto simp add: EEPROM_address_CRC_def EEPROM_version_number_address_def
      EEPROM_address_start_def)

text \<open>
  C3. For every store content that passes the validation at boot (the stored checksum is
  the computed one and the version byte is the current version), changing any single byte
  other than the four bytes of the stored checksum to a different value makes the
  validation fail: a changed data byte (offset 5 and above) breaks the comparison of the
  checksums, the changed version byte (offset 0) breaks the comparison of the versions.
  \<^verbatim>\<open>setupEEPROM\<close> then runs \<^verbatim>\<open>initEEPROM\<close>, the full reinitialisation.
\<close>

theorem changed_byte_of_valid_store_reinitialises:
  assumes "checkCRC e" and "checkEEPROMVersionNumber e"
    and "i < length e"
    and "i < EEPROM_address_CRC \<or> EEPROM_address_CRC + EEPROM_size_CRC \<le> i"
    and "v \<noteq> e ! i"
  shows "(EEPROM_address_start \<le> i \<longrightarrow> \<not> checkCRC (e[i := v]))
       \<and> (i = EEPROM_version_number_address \<longrightarrow> \<not> checkEEPROMVersionNumber (e[i := v]))
       \<and> setupEEPROM chip beyond (d\<lparr>flash := e[i := v]\<rparr>)
           = initEEPROM chip beyond (EEPROM_begin (d\<lparr>flash := e[i := v]\<rparr>))"
proof -
  have a: "\<not> checkCRC (e[i := v])" if "EEPROM_address_start \<le> i"
    using assms(1) that assms(3,5) by (rule checkCRC_data_byte_changed)
  have b: "\<not> checkEEPROMVersionNumber (e[i := v])" if "i = EEPROM_version_number_address"
    using checkEEPROMVersionNumber_changed [of e v] assms(2,3,5) that by simp
  have "\<not> checkCRC (e[i := v]) \<or> \<not> checkEEPROMVersionNumber (e[i := v])"
    using outside_checksum_cases [OF assms(4)] a b by blast
  then have "setupEEPROM chip beyond (d\<lparr>flash := e[i := v]\<rparr>)
               = initEEPROM chip beyond (EEPROM_begin (d\<lparr>flash := e[i := v]\<rparr>))"
    by (simp add: setupEEPROM_def Let_def EEPROM_begin_def)
  with a b show ?thesis by blast
qed

text \<open>
  The store as \<^verbatim>\<open>initEEPROM\<close> leaves it passes the validation; a change of its byte 5
  (the flag of the MQTT configuration) or of its version byte is detected at the next boot.
\<close>

lemma eeprom_initEEPROM:
  "eeprom (initEEPROM chip beyond d) =
     storeCRC (write_loop (c_str (getDefaultOtaPassword chip) beyond)
                 EEPROM_address_OTA_password EEPROM_size_OTA_password 0
                 (storeEEPROMVersionNumber
                    (write_loop (\<lambda>i. EEPROM_init_value) 0 EEPROM_length 0 (eeprom d))))"
  by (simp add: initEEPROM_def eeprom_saveOtaPasswordToEEPROM)

lemma layout_numbers:
  "EEPROM_version_number_address = 0" "EEPROM_address_CRC = 1" "EEPROM_size_CRC = 4"
  "EEPROM_address_start = 5" "EEPROM_address_OTA_password = 262" "EEPROM_length = 4096"
  by (simp_all add: EEPROM_version_number_address_def EEPROM_address_CRC_def
      EEPROM_size_CRC_def EEPROM_address_start_def EEPROM_address_OTA_password_def
      EEPROM_address_MQTT_server_def EEPROM_address_MQTT_server_configured_def
      EEPROM_enabled_size_def EEPROM_size_MQTT_server_def EEPROM_length_def)

lemma version_byte_initEEPROM:
  assumes "length (eeprom d) = EEPROM_length"
  shows "eeprom (initEEPROM chip beyond d) ! 0 = EEPROM_version_number"
  using assms
  by (simp add: eeprom_initEEPROM storeCRC_def nth_write_loop storeEEPROMVersionNumber_def
      nth_EEPROM_write layout_numbers)

lemma flag_byte_initEEPROM:
  assumes "length (eeprom d) = EEPROM_length"
  shows "eeprom (initEEPROM chip beyond d) ! 5 = 0"
  using assms
  by (simp add: eeprom_initEEPROM storeCRC_def nth_write_loop storeEEPROMVersionNumber_def
      nth_EEPROM_write layout_numbers EEPROM_init_value_def)

lemma checkEEPROMVersionNumber_initEEPROM:
  assumes "length (eeprom d) = EEPROM_length"
  shows "checkEEPROMVersionNumber (eeprom (initEEPROM chip beyond d))"
  using assms version_byte_initEEPROM [OF assms, of chip beyond]
  by (simp add: checkEEPROMVersionNumber_def EEPROM_read_def layout_numbers)

theorem changed_byte_of_valid_store_reinitialises_witness:
  "checkCRC (flash (initEEPROM ''1265369'' (\<lambda>i. 0) (EEPROM_begin (power_on (replicate 4096 0)))))
   \<and> checkEEPROMVersionNumber
        (flash (initEEPROM ''1265369'' (\<lambda>i. 0) (EEPROM_begin (power_on (replicate 4096 0)))))
   \<and> flash (initEEPROM ''1265369'' (\<lambda>i. 0) (EEPROM_begin (power_on (replicate 4096 0)))) ! 5
       \<noteq> 1
   \<and> \<not> checkCRC
         ((flash (initEEPROM ''1265369'' (\<lambda>i. 0) (EEPROM_begin (power_on (replicate 4096 0)))))
            [5 := 1])
   \<and> setupEEPROM ''1265369'' (\<lambda>i. 0)
        (power_on
           ((flash (initEEPROM ''1265369'' (\<lambda>i. 0)
                      (EEPROM_begin (power_on (replicate 4096 0)))))[5 := 1]))
      = initEEPROM ''1265369'' (\<lambda>i. 0)
          (EEPROM_begin
             (power_on
                ((flash (initEEPROM ''1265369'' (\<lambda>i. 0)
                           (EEPROM_begin (power_on (replicate 4096 0)))))[5 := 1])))"
proof -
  define e where
    "e = flash (initEEPROM ''1265369'' (\<lambda>i. 0) (EEPROM_begin (power_on (replicate 4096 0))))"
  have len: "length (eeprom (EEPROM_begin (power_on (replicate 4096 0)))) = EEPROM_length"
    by (simp add: EEPROM_length_def)
  have e: "e = eeprom (initEEPROM ''1265369'' (\<lambda>i. 0)
                         (EEPROM_begin (power_on (replicate 4096 0))))"
    by (simp add: e_def flash_initEEPROM)
  have h1: "checkCRC e"
    unfolding e using len EEPROM_length_start by (intro checkCRC_initEEPROM) simp
  have h2: "checkEEPROMVersionNumber e"
    unfolding e using len by (rule checkEEPROMVersionNumber_initEEPROM)
  have h3: "5 < length e"
    unfolding e by (simp add: len layout_numbers del: length_eeprom_begin_power_on)
  have h4: "5 < EEPROM_address_CRC \<or> EEPROM_address_CRC + EEPROM_size_CRC \<le> 5"
    by (simp add: layout_numbers)
  have h5: "1 \<noteq> e ! 5"
    unfolding e using flag_byte_initEEPROM [OF len] by simp
  have p: "(power_on [])\<lparr>flash := e[5 := 1]\<rparr> = power_on (e[5 := 1])"
    by (simp add: power_on_def)
  have s: "EEPROM_address_start \<le> 5"
    by (simp add: layout_numbers)
  from changed_byte_of_valid_store_reinitialises
         [OF h1 h2 h3 h4 h5, of "''1265369''" "\<lambda>i. 0" "power_on []"]
  have "\<not> checkCRC (e[5 := 1])
        \<and> setupEEPROM ''1265369'' (\<lambda>i. 0) (power_on (e[5 := 1]))
            = initEEPROM ''1265369'' (\<lambda>i. 0) (EEPROM_begin (power_on (e[5 := 1])))"
    unfolding p using s by blast
  with h1 h2 h5 show ?thesis
    unfolding e_def by simp
qed

text \<open>
  Without the condition that the store passes the validation before the change, the
  statement is false: in the store of zeros with its checksum stored, the version byte is
  0 and the validation would fail; changing that byte to 1 makes the validation pass, and
  \<^verbatim>\<open>setupEEPROM\<close> leaves the store as it is.
\<close>

lemma checkCRC_version_byte_update:
  "checkCRC (e[EEPROM_version_number_address := v]) \<longleftrightarrow> checkCRC e"
proof -
  have "retrieveCRC (e[EEPROM_version_number_address := v]) = retrieveCRC e"
    by (rule retrieveCRC_update_outside) (simp add: layout_numbers)
  moreover have "calculate_crc (e[EEPROM_version_number_address := v]) = calculate_crc e"
    by (simp add: calculate_crc_fold layout_numbers)
  ultimately show ?thesis by (simp add: checkCRC_def)
qed

theorem changed_byte_of_invalid_store_counterexample:
  "storeCRC (replicate 4096 0) ! 0 \<noteq> 1
   \<and> \<not> checkEEPROMVersionNumber (storeCRC (replicate 4096 0))
   \<and> checkCRC ((storeCRC (replicate 4096 0))[0 := 1])
   \<and> checkEEPROMVersionNumber ((storeCRC (replicate 4096 0))[0 := 1])
   \<and> setupEEPROM ''1265369'' (\<lambda>i. 0) (power_on ((storeCRC (replicate 4096 0))[0 := 1]))
       = EEPROM_begin (power_on ((storeCRC (replicate 4096 0))[0 := 1]))
   \<and> flash (setupEEPROM ''1265369'' (\<lambda>i. 0)
               (power_on ((storeCRC (replicate 4096 0))[0 := 1])))
       = (storeCRC (replicate 4096 0))[0 := 1]
   \<and> setupEEPROM ''1265369'' (\<lambda>i. 0) (power_on ((storeCRC (replicate 4096 0))[0 := 1]))
       \<noteq> initEEPROM ''1265369'' (\<lambda>i. 0)
            (EEPROM_begin (power_on ((storeCRC (replicate 4096 0))[0 := 1])))"
proof -
  define c where "c = storeCRC (replicate 4096 0)"
  have len: "length c = 4096"
    by (simp add: c_def)
  have z: "c ! 0 = 0"
    by (simp add: c_def storeCRC_def nth_write_loop layout_numbers)
  have crc: "checkCRC (c[0 := 1])"
    using checkCRC_version_byte_update [of c 1] checkCRC_storeCRC [of "replicate 4096 0"]
    by (simp add: c_def layout_numbers)
  have ver: "checkEEPROMVersionNumber (c[0 := 1])"
    by (simp add: checkEEPROMVersionNumber_def EEPROM_read_def len layout_numbers
        EEPROM_version_number_def)
  have nover: "\<not> checkEEPROMVersionNumber c"
    by (simp add: checkEEPROMVersionNumber_def EEPROM_read_def len layout_numbers
        EEPROM_version_number_def z)
  have same: "setupEEPROM ''1265369'' (\<lambda>i. 0) (power_on (c[0 := 1]))
                 = EEPROM_begin (power_on (c[0 := 1]))"
    using crc ver by (simp add: setupEEPROM_def Let_def EEPROM_begin_def power_on_def)
  have fl: "flash (EEPROM_begin (power_on (c[0 := 1]))) = c[0 := 1]"
    by (simp add: EEPROM_begin_def power_on_def)
  have "arduinoOtaPassword (initEEPROM ''1265369'' (\<lambda>i. 0) (EEPROM_begin (power_on (c[0 := 1]))))
          \<noteq> arduinoOtaPassword (EEPROM_begin (power_on (c[0 := 1])))"
    by (simp add: initEEPROM_def saveOtaPasswordToEEPROM_def EEPROM_commit_def
        EEPROM_begin_def power_on_def getDefaultOtaPassword_def)
  then have ne: "EEPROM_begin (power_on (c[0 := 1]))
                   \<noteq> initEEPROM ''1265369'' (\<lambda>i. 0) (EEPROM_begin (power_on (c[0 := 1])))"
    by metis
  show ?thesis
    unfolding c_def [symmetric] same fl
    using z crc ver nover ne by simp
qed

end
